theory Spec2Isabelle
  imports
    Complex_Main
    "HOL-Library.Char_ord"
    "HOL-Library.List_Lexorder"
    "HOL-Library.Product_Lexorder"
    "HOL-Library.AList"
    "HOL-Library.Log_Nat"
    "HOL-Library.Multiset"
begin

section \<open>Python values used by app.py\<close>

text \<open>
  A Python \<open>str\<close> is a \<open>string\<close> whose characters are the code points below 256
  (Latin-1), which covers every literal of app.py (the category names with their
  accents included). A Python \<open>float\<close> is an IEEE 754 double with its rounding to
  nearest, an infinity or a NaN.
\<close>

subsection \<open>Strings\<close>

definition is_space :: "char \<Rightarrow> bool" where
  \<comment> \<open>\<open>str.isspace\<close> on the code points below 256\<close>
  "is_space c =
     (let n = (of_char c :: nat)
      in (9 \<le> n \<and> n \<le> 13) \<or> (28 \<le> n \<and> n \<le> 32) \<or> n = 133 \<or> n = 160)"

definition py_strip :: "string \<Rightarrow> string" where
  \<comment> \<open>\<open>s.strip()\<close>\<close>
  "py_strip s = rev (dropWhile is_space (rev (dropWhile is_space s)))"

definition is_word :: "char \<Rightarrow> bool" where
  \<comment> \<open>the class \<open>\w\<close> of module \<open>re\<close> on the code points below 256\<close>
  "is_word c =
     (let n = (of_char c :: nat)
      in (48 \<le> n \<and> n \<le> 57) \<or> (65 \<le> n \<and> n \<le> 90) \<or> n = 95 \<or> (97 \<le> n \<and> n \<le> 122)
         \<or> n = 170 \<or> n = 178 \<or> n = 179 \<or> n = 181 \<or> n = 185 \<or> n = 186
         \<or> (188 \<le> n \<and> n \<le> 190) \<or> (192 \<le> n \<and> n \<le> 214)
         \<or> (216 \<le> n \<and> n \<le> 246) \<or> (248 \<le> n \<and> n \<le> 255))"

definition split_first :: "char \<Rightarrow> string \<Rightarrow> string \<times> string" where
  \<comment> \<open>\<open>s.split(d, 1)\<close> for a string \<open>s\<close> that contains \<open>d\<close>\<close>
  "split_first d s = (takeWhile (\<lambda>c. c \<noteq> d) s, drop 1 (dropWhile (\<lambda>c. c \<noteq> d) s))"

fun search_SUB :: "bool \<Rightarrow> string \<Rightarrow> (string \<times> string) option" where
  \<comment> \<open>\<open>re.search(r'\bSUB\b', s)\<close>: the text before the leftmost match and the text after
      it, or \<open>None\<close>. The flag tells whether a word boundary can start at the head of
      the remaining text (start of the string, or after a non-word character).\<close>
  "search_SUB b [] = None"
| "search_SUB b (c # cs) =
     (if b \<and> c = CHR ''S'' \<and> take 2 cs = ''UB''
         \<and> (case drop 2 cs of [] \<Rightarrow> True | d # _ \<Rightarrow> \<not> is_word d)
      then Some ([], drop 2 cs)
      else (case search_SUB (\<not> is_word c) cs of
              None \<Rightarrow> None
            | Some (pre, post) \<Rightarrow> Some (c # pre, post)))"

subsection \<open>parse\_event\_title\<close>

definition parse_event_title :: "string \<Rightarrow> string \<times> string \<times> string \<times> string" where
  "parse_event_title summary =
     (if summary = [] then ([], [], [], [])
      else
        let (artista, rest) =
              (if CHR ''|'' \<in> set summary
               then (let (a, r) = split_first (CHR ''|'') summary in (py_strip a, py_strip r))
               else (py_strip summary, []));
            (evento, local_part) =
              (if CHR '','' \<in> set rest
               then (let (e, l) = split_first (CHR '','') rest in (py_strip e, py_strip l))
               else (py_strip rest, []))
        in (case search_SUB True local_part of
              Some (pre, post) \<Rightarrow> (artista, evento, py_strip pre, py_strip post)
            | None \<Rightarrow> (artista, evento, local_part, [])))"

fun contains_SUB :: "string \<Rightarrow> bool" where
  \<comment> \<open>\<open>'SUB' in s\<close>: the three letters occur somewhere in the text\<close>
  "contains_SUB [] = False"
| "contains_SUB (c # cs) = (take 3 (c # cs) = ''SUB'' \<or> contains_SUB cs)"


subsection \<open>Floats\<close>

text \<open>
  A Python \<open>float\<close> is an IEEE 754 double. A finite double is \<open>Fin m e\<close>, the number
  \<open>m * 2 ^ e\<close>, in the one form that \<open>fl_frac\<close> produces: for a normal number \<open>m\<close> has 53
  bits, for a subnormal one \<open>e\<close> is \<open>-1074\<close>, and zero is \<open>Fin 0 0\<close>. The negative zero
  is not told apart from zero: Python compares the two equal and no operation of
  app.py separates them.
\<close>

datatype pyfloat = Fin int int | PosInf | NegInf | NaN

definition fzero :: pyfloat where
  "fzero = Fin 0 0"

definition scale2 :: "int \<Rightarrow> int \<Rightarrow> int" where
  \<comment> \<open>\<open>m * 2 ^ z\<close> for a shift \<open>z\<close> that is not negative, \<open>m\<close> otherwise\<close>
  "scale2 m z = (if 0 \<le> z then m * 2 ^ nat z else m)"

definition half_even :: "int \<Rightarrow> int \<Rightarrow> int" where
  \<comment> \<open>the integer nearest to \<open>p / q\<close> for \<open>q > 0\<close>, a tie going to the even one\<close>
  "half_even p q =
     (let f = p div q; r = p mod q
      in if 2 * r < q then f else if q < 2 * r then f + 1 else if even f then f else f + 1)"

definition fl_frac :: "int \<Rightarrow> int \<Rightarrow> pyfloat" where
  \<comment> \<open>The double nearest to \<open>p / q\<close> for \<open>q > 0\<close>, a tie going to the even mantissa:
      \<open>e\<close> is the binary exponent of \<open>p / q\<close>, \<open>u\<close> the exponent of the last bit of
      its double, and a result of \<open>2 ^ 1024\<close> and above is infinite.\<close>
  "fl_frac p q =
     (if p = 0 then fzero
      else
        let a = \<bar>p\<bar>;
            e0 = bitlen a - bitlen q;
            e = (if scale2 a (- e0) < scale2 q e0 then e0 - 1 else e0);
            u = max (e - 52) (- 1074);
            k = half_even (scale2 a (- u)) (scale2 q u);
            m = (if k = 2 ^ 53 then 2 ^ 52 else k);
            x = (if k = 2 ^ 53 then u + 1 else u)
        in if k = 0 then fzero
           else if 972 \<le> x then (if 0 < p then PosInf else NegInf)
           else Fin (if 0 < p then m else - m) x)"

definition of_dec :: "int \<Rightarrow> nat \<Rightarrow> pyfloat" where
  \<comment> \<open>the double that the decimal literal \<open>n * 10 ^ -k\<close> denotes: \<open>of_dec 16 2\<close> is \<open>0.16\<close>\<close>
  "of_dec n k = fl_frac n (10 ^ k)"

definition fl_exact :: "int \<Rightarrow> int \<Rightarrow> pyfloat" where
  \<comment> \<open>the double nearest to \<open>m * 2 ^ e\<close>\<close>
  "fl_exact m e = fl_frac (scale2 m e) (scale2 1 (- e))"

definition fneg :: "pyfloat \<Rightarrow> pyfloat" where
  "fneg x = (case x of Fin m e \<Rightarrow> Fin (- m) e | PosInf \<Rightarrow> NegInf | NegInf \<Rightarrow> PosInf | NaN \<Rightarrow> NaN)"

definition fadd :: "pyfloat \<Rightarrow> pyfloat \<Rightarrow> pyfloat" where
  \<comment> \<open>\<open>x + y\<close>\<close>
  "fadd x y =
     (case x of
        NaN \<Rightarrow> NaN
      | PosInf \<Rightarrow> (case y of NaN \<Rightarrow> NaN | NegInf \<Rightarrow> NaN | _ \<Rightarrow> PosInf)
      | NegInf \<Rightarrow> (case y of NaN \<Rightarrow> NaN | PosInf \<Rightarrow> NaN | _ \<Rightarrow> NegInf)
      | Fin m1 e1 \<Rightarrow>
          (case y of
             Fin m2 e2 \<Rightarrow>
               (let e = min e1 e2 in fl_exact (scale2 m1 (e1 - e) + scale2 m2 (e2 - e)) e)
           | _ \<Rightarrow> y))"

definition fsub :: "pyfloat \<Rightarrow> pyfloat \<Rightarrow> pyfloat" where
  \<comment> \<open>\<open>x - y\<close>\<close>
  "fsub x y = fadd x (fneg y)"

definition inf_of_sign :: "bool \<Rightarrow> pyfloat" where
  "inf_of_sign positive = (if positive then PosInf else NegInf)"

definition fmul :: "pyfloat \<Rightarrow> pyfloat \<Rightarrow> pyfloat" where
  \<comment> \<open>\<open>x * y\<close>\<close>
  "fmul x y =
     (case x of
        NaN \<Rightarrow> NaN
      | Fin m1 e1 \<Rightarrow>
          (case y of
             Fin m2 e2 \<Rightarrow> fl_exact (m1 * m2) (e1 + e2)
           | NaN \<Rightarrow> NaN
           | PosInf \<Rightarrow> (if m1 = 0 then NaN else inf_of_sign (0 < m1))
           | NegInf \<Rightarrow> (if m1 = 0 then NaN else inf_of_sign (m1 < 0)))
      | PosInf \<Rightarrow>
          (case y of
             Fin m2 e2 \<Rightarrow> (if m2 = 0 then NaN else inf_of_sign (0 < m2))
           | NaN \<Rightarrow> NaN
           | PosInf \<Rightarrow> PosInf
           | NegInf \<Rightarrow> NegInf)
      | NegInf \<Rightarrow>
          (case y of
             Fin m2 e2 \<Rightarrow> (if m2 = 0 then NaN else inf_of_sign (m2 < 0))
           | NaN \<Rightarrow> NaN
           | PosInf \<Rightarrow> NegInf
           | NegInf \<Rightarrow> PosInf))"

definition fdiv100 :: "pyfloat \<Rightarrow> pyfloat" where
  \<comment> \<open>\<open>x / 100\<close>\<close>
  "fdiv100 x =
     (case x of Fin m e \<Rightarrow> fl_frac (scale2 m e) (scale2 100 (- e)) | _ \<Rightarrow> x)"

definition fless :: "pyfloat \<Rightarrow> pyfloat \<Rightarrow> bool" where
  \<comment> \<open>\<open>x < y\<close>, false when either is not a number\<close>
  "fless x y =
     (case x of
        NaN \<Rightarrow> False
      | PosInf \<Rightarrow> False
      | NegInf \<Rightarrow> (case y of NaN \<Rightarrow> False | NegInf \<Rightarrow> False | _ \<Rightarrow> True)
      | Fin m1 e1 \<Rightarrow>
          (case y of
             Fin m2 e2 \<Rightarrow> (let e = min e1 e2 in scale2 m1 (e1 - e) < scale2 m2 (e2 - e))
           | PosInf \<Rightarrow> True
           | _ \<Rightarrow> False))"

definition fle :: "pyfloat \<Rightarrow> pyfloat \<Rightarrow> bool" where
  \<comment> \<open>\<open>x <= y\<close>, false when either is not a number\<close>
  "fle x y = (x \<noteq> NaN \<and> y \<noteq> NaN \<and> \<not> fless y x)"

definition fpos :: "pyfloat \<Rightarrow> bool" where
  \<comment> \<open>\<open>x > 0\<close>\<close>
  "fpos x = fless fzero x"

definition py_min :: "pyfloat \<Rightarrow> pyfloat \<Rightarrow> pyfloat" where
  \<comment> \<open>\<open>min(x, y)\<close>: the first argument unless the second is less\<close>
  "py_min x y = (if fless y x then y else x)"

definition py_max :: "pyfloat \<Rightarrow> pyfloat \<Rightarrow> pyfloat" where
  \<comment> \<open>\<open>max(x, y)\<close>: the first argument unless the second is greater\<close>
  "py_max x y = (if fless x y then y else x)"

definition py_round :: "nat \<Rightarrow> pyfloat \<Rightarrow> pyfloat" where
  \<comment> \<open>\<open>round(x, n)\<close>: the exact value of the double is rounded to \<open>n\<close> decimals, a tie
      going to the even digit, and the double nearest to that decimal is returned;
      an infinity and a NaN are returned as they are\<close>
  "py_round n x =
     (case x of
        Fin m e \<Rightarrow> of_dec (half_even (scale2 (m * 10 ^ n) e) (scale2 1 (- e))) n
      | _ \<Rightarrow> x)"

definition fsum :: "pyfloat list \<Rightarrow> pyfloat" where
  \<comment> \<open>a running sum from \<open>0.0\<close>, in the order of the list\<close>
  "fsum xs = foldl fadd fzero xs"

subsection \<open>Numbers in text and in JSON\<close>

text \<open>
  A value read from a JSON file: \<open>null\<close>, a string, a number literal (\<open>PNum n k\<close> is
  \<open>n * 10 ^ -k\<close>), one of the constants \<open>Infinity\<close>, \<open>-Infinity\<close> and \<open>NaN\<close> that
  \<open>json.load\<close> accepts, or anything else (a boolean, a list, an object).
\<close>

datatype pyval = PNone | PStr string | PNum int nat | PInfinity bool | PNaN | POther

definition is_digit :: "char \<Rightarrow> bool" where
  "is_digit c = (let n = (of_char c :: nat) in 48 \<le> n \<and> n \<le> 57)"

definition digit_val :: "char \<Rightarrow> nat" where
  "digit_val c = of_char c - 48"

definition digits_val :: "string \<Rightarrow> nat" where
  "digits_val ds = foldl (\<lambda>a c. 10 * a + digit_val c) 0 ds"

definition split_sign :: "string \<Rightarrow> bool \<times> string" where
  \<comment> \<open>an optional sign; the flag is set for \<open>-\<close>\<close>
  "split_sign s =
     (case s of
        [] \<Rightarrow> (False, [])
      | c # cs \<Rightarrow> if c = CHR ''-'' then (True, cs)
                  else if c = CHR ''+'' then (False, cs) else (False, s))"

definition ascii_lower :: "char \<Rightarrow> char" where
  "ascii_lower c =
     (let n = (of_char c :: nat) in if 65 \<le> n \<and> n \<le> 90 then char_of (n + 32) else c)"

fun drop_underscores :: "char \<Rightarrow> string \<Rightarrow> string option" where
  \<comment> \<open>An underscore is accepted between two digits only; \<open>prev\<close> is the character
      before the text. \<open>None\<close> is ValueError.\<close>
  "drop_underscores prev [] = (if prev = CHR ''_'' then None else Some [])"
| "drop_underscores prev (c # cs) =
     (if c = CHR ''_''
      then (if is_digit prev then drop_underscores c cs else None)
      else if prev = CHR ''_'' \<and> \<not> is_digit c then None
      else (case drop_underscores c cs of None \<Rightarrow> None | Some r \<Rightarrow> Some (c # r)))"

definition dec_exp :: "bool \<Rightarrow> nat \<Rightarrow> nat \<Rightarrow> bool \<Rightarrow> nat \<Rightarrow> pyfloat" where
  \<comment> \<open>the double of \<open>sign digits * 10 ^ (exponent - k)\<close>\<close>
  "dec_exp neg n k eneg x =
     (let s = (if neg then - int n else int n)
      in if eneg then fl_frac s (10 ^ (k + x))
         else if k \<le> x then fl_frac (s * 10 ^ (x - k)) 1
         else fl_frac s (10 ^ (k - x)))"

definition py_float :: "string \<Rightarrow> pyfloat option" where
  \<comment> \<open>\<open>float(s)\<close> on a string: surrounding whitespace, a sign, then \<open>inf\<close>, \<open>infinity\<close>
      or \<open>nan\<close> in any case, or digits with an optional point and an optional exponent,
      underscores between digits allowed. \<open>None\<close> is ValueError.\<close>
  "py_float s0 =
     (case drop_underscores (CHR 0x00) (py_strip s0) of
        None \<Rightarrow> None
      | Some s1 \<Rightarrow>
          let (neg, s) = split_sign s1;
              w = map ascii_lower s;
              ip = takeWhile is_digit s;
              r1 = dropWhile is_digit s;
              (fp, r2) = (case r1 of
                            [] \<Rightarrow> ([], [])
                          | c # cs \<Rightarrow> if c = CHR ''.''
                                      then (takeWhile is_digit cs, dropWhile is_digit cs)
                                      else ([], r1));
              n = digits_val (ip @ fp);
              k = length fp
          in if w = ''inf'' \<or> w = ''infinity'' then Some (inf_of_sign (\<not> neg))
             else if w = ''nan'' then Some NaN
             else if ip = [] \<and> fp = [] then None
             else (case r2 of
                     [] \<Rightarrow> Some (dec_exp neg n k False 0)
                   | c # cs \<Rightarrow>
                       if c = CHR ''e'' \<or> c = CHR ''E''
                       then (let (eneg, es) = split_sign cs
                             in if es \<noteq> [] \<and> list_all is_digit es
                                then Some (dec_exp neg n k eneg (digits_val es))
                                else None)
                       else None))"

definition to_float :: "pyval \<Rightarrow> pyfloat" where
  \<comment> \<open>\<open>_to_float\<close>: absent and empty values and malformed text are zero\<close>
  "to_float v =
     (case v of
        PNone \<Rightarrow> fzero
      | PNum n k \<Rightarrow> of_dec n k
      | PInfinity positive \<Rightarrow> inf_of_sign positive
      | PNaN \<Rightarrow> NaN
      | POther \<Rightarrow> fzero
      | PStr s \<Rightarrow>
          if s = [] then fzero
          else (case py_float (map (\<lambda>c. if c = CHR '','' then CHR ''.'' else c) s) of
                  Some x \<Rightarrow> x
                | None \<Rightarrow> fzero))"

definition truthy :: "pyval \<Rightarrow> bool" where
  \<comment> \<open>whether \<open>v or 0\<close> is \<open>v\<close>; for a boolean, a list or an object either answer gives
      the same amount, since \<open>_to_float\<close> reads them as zero\<close>
  "truthy v =
     (case v of
        PNone \<Rightarrow> False
      | PStr s \<Rightarrow> s \<noteq> []
      | PNum n k \<Rightarrow> n \<noteq> 0
      | PInfinity positive \<Rightarrow> True
      | PNaN \<Rightarrow> True
      | POther \<Rightarrow> True)"

subsection \<open>Dates\<close>

record datetime =
  dt_year :: nat
  dt_month :: nat
  dt_day :: nat
  dt_hour :: nat
  dt_minute :: nat

definition leap_year :: "nat \<Rightarrow> bool" where
  "leap_year y = (y mod 4 = 0 \<and> (y mod 100 \<noteq> 0 \<or> y mod 400 = 0))"

definition days_in_month :: "nat \<Rightarrow> nat \<Rightarrow> nat" where
  "days_in_month y m =
     (if m = 2 then (if leap_year y then 29 else 28)
      else if m = 4 \<or> m = 6 \<or> m = 9 \<or> m = 11 then 30 else 31)"

definition nonzero_digit :: "char \<Rightarrow> bool" where
  "nonzero_digit c = (is_digit c \<and> c \<noteq> CHR ''0'')"

definition month_token :: "string \<Rightarrow> (nat \<times> string) option" where
  \<comment> \<open>the directive \<open>%m\<close>, the pattern \<open>1[0-2]|0[1-9]|[1-9]\<close>, and the text after it\<close>
  "month_token s =
     (case s of
        [] \<Rightarrow> None
      | [a] \<Rightarrow> if nonzero_digit a then Some (digit_val a, []) else None
      | a # b # r \<Rightarrow>
          if a = CHR ''1'' \<and> (b = CHR ''0'' \<or> b = CHR ''1'' \<or> b = CHR ''2'')
          then Some (10 + digit_val b, r)
          else if a = CHR ''0'' \<and> nonzero_digit b then Some (digit_val b, r)
          else if nonzero_digit a then Some (digit_val a, b # r)
          else None)"

definition day_token :: "string \<Rightarrow> (nat \<times> string) option" where
  \<comment> \<open>the directive \<open>%d\<close>, the pattern \<open>3[0-1]|[1-2]\d|0[1-9]|[1-9]| [1-9]\<close>, and the
      text after it\<close>
  "day_token s =
     (case s of
        [] \<Rightarrow> None
      | [a] \<Rightarrow> if nonzero_digit a then Some (digit_val a, []) else None
      | a # b # r \<Rightarrow>
          if a = CHR ''3'' \<and> (b = CHR ''0'' \<or> b = CHR ''1'') then Some (30 + digit_val b, r)
          else if (a = CHR ''1'' \<or> a = CHR ''2'') \<and> is_digit b
          then Some (10 * digit_val a + digit_val b, r)
          else if a = CHR ''0'' \<and> nonzero_digit b then Some (digit_val b, r)
          else if nonzero_digit a then Some (digit_val a, b # r)
          else if a = CHR '' '' \<and> nonzero_digit b then Some (digit_val b, r)
          else None)"

definition strptime_ymd :: "string \<Rightarrow> (nat \<times> nat \<times> nat) option" where
  \<comment> \<open>\<open>datetime.strptime(s, '%Y-%m-%d')\<close>: year, month and day, or \<open>None\<close> for
      ValueError (no match, text left over, or no such day in the calendar)\<close>
  "strptime_ymd s =
     (let ys = take 4 s; r0 = drop 4 s
      in if length ys = 4 \<and> list_all is_digit ys \<and> take 1 r0 = ''-''
         then (case month_token (drop 1 r0) of
                 None \<Rightarrow> None
               | Some (m, r1) \<Rightarrow>
                   if take 1 r1 = ''-''
                   then (case day_token (drop 1 r1) of
                           None \<Rightarrow> None
                         | Some (d, r2) \<Rightarrow>
                             let y = digits_val ys
                             in if r2 = [] \<and> 1 \<le> y \<and> d \<le> days_in_month y m
                                then Some (y, m, d) else None)
                   else None)
         else None)"

definition pad2 :: "nat \<Rightarrow> string" where
  "pad2 n = [char_of (48 + n div 10 mod 10), char_of (48 + n mod 10)]"

fun dec_str :: "nat \<Rightarrow> string" where
  \<comment> \<open>the decimal digits of a number, with no padding\<close>
  "dec_str n = (if n < 10 then [char_of (48 + n)] else dec_str (n div 10) @ [char_of (48 + n mod 10)])"

definition strftime_dmy :: "datetime \<Rightarrow> string" where
  \<comment> \<open>\<open>dt.strftime('%d/%m/%Y')\<close>, with the year as the C library of Linux prints it:
      a year below 1000 is not padded (other platforms pad it to four digits)\<close>
  "strftime_dmy dt =
     pad2 (dt_day dt) @ ''/'' @ pad2 (dt_month dt) @ ''/'' @ dec_str (dt_year dt)"

definition strftime_hm :: "datetime \<Rightarrow> string" where
  \<comment> \<open>\<open>dt.strftime('%H:%M')\<close>\<close>
  "strftime_hm dt = pad2 (dt_hour dt) @ '':'' @ pad2 (dt_minute dt)"

definition parse_start :: "(string \<Rightarrow> datetime option) \<Rightarrow> string \<Rightarrow> datetime option" where
  \<comment> \<open>The two parsers of the \<open>try\<close> block of \<open>_build_concerts_from_local\<close>. The library
      function \<open>datetime.fromisoformat\<close>, whose accepted syntax depends on the Python
      version, is the parameter \<open>fromisoformat\<close>; \<open>None\<close> is its ValueError.\<close>
  "parse_start fromisoformat start_raw =
     (if CHR ''T'' \<in> set start_raw
      then fromisoformat (concat (map (\<lambda>c. if c = CHR ''Z'' then ''+00:00'' else [c]) start_raw))
      else (case strptime_ymd start_raw of
              None \<Rightarrow> None
            | Some (y, m, d) \<Rightarrow>
                Some \<lparr>dt_year = y, dt_month = m, dt_day = d, dt_hour = 0, dt_minute = 0\<rparr>))"

section \<open>Revenue normaliser: \_build\_concerts\_from\_local\<close>

record event =
  ev_start :: string
  ev_summary :: string

text \<open>An override record holds a field only once it has been written: \<open>None\<close> is an absent key.\<close>

record override =
  ov_artista :: "string option"
  ov_evento :: "string option"
  ov_local :: "string option"
  ov_substituto :: "string option"
  ov_cachet :: "string option"

definition no_override :: override where
  "no_override =
     \<lparr>ov_artista = None, ov_evento = None, ov_local = None, ov_substituto = None,
      ov_cachet = None\<rparr>"

record concert =
  c_id :: string
  c_date :: string
  c_time :: string
  c_year :: nat
  c_month :: nat
  c_artista :: string
  c_evento :: string
  c_local :: string
  c_substituto :: string
  c_cachet :: string
  c_km :: pyval

definition get_or :: "'a option \<Rightarrow> 'a \<Rightarrow> 'a" where
  \<comment> \<open>\<open>d.get(key, default)\<close>, on the result of the lookup\<close>
  "get_or v dflt = (case v of None \<Rightarrow> dflt | Some x \<Rightarrow> x)"

definition concert_of ::
  "(string \<Rightarrow> datetime option) \<Rightarrow> (string \<rightharpoonup> override) \<Rightarrow> (string \<rightharpoonup> string)
     \<Rightarrow> (string \<rightharpoonup> pyval) \<Rightarrow> string \<times> event \<Rightarrow> concert" where
  \<comment> \<open>the body of the loop over the events\<close>
  "concert_of fromisoformat concert_data artist_base distances p =
     (let event_id = fst p; ev = snd p;
          start_raw = ev_start ev;
          (date_str, time_str, year, month) =
             (case parse_start fromisoformat start_raw of
                Some dt \<Rightarrow> (strftime_dmy dt,
                            if CHR ''T'' \<in> set start_raw then strftime_hm dt else [],
                            dt_year dt, dt_month dt)
              | None \<Rightarrow> (start_raw, [], 0, 0));
          (a_p, ev_p, lo_p, su_p) = parse_event_title (ev_summary ev);
          ov = get_or (concert_data event_id) no_override;
          artista = get_or (ov_artista ov) a_p;
          evento = get_or (ov_evento ov) ev_p;
          local = get_or (ov_local ov) lo_p;
          substituto = get_or (ov_substituto ov) su_p;
          cachet0 = (if get_or (ov_cachet ov) [] \<noteq> [] then get_or (ov_cachet ov) []
                     else get_or (artist_base artista) []);
          cachet = (if substituto \<noteq> [] then ''0'' else cachet0);
          km = (if local \<noteq> [] then get_or (distances local) PNone else PNone)
      in \<lparr>c_id = event_id, c_date = date_str, c_time = time_str, c_year = year,
          c_month = month, c_artista = artista, c_evento = evento, c_local = local,
          c_substituto = substituto, c_cachet = cachet,
          c_km = (if km = PNone then PStr [] else km)\<rparr>)"

definition build_concerts_from_local ::
  "(string \<Rightarrow> datetime option) \<Rightarrow> (string \<times> event) list \<Rightarrow> (string \<rightharpoonup> override)
     \<Rightarrow> (string \<rightharpoonup> string) \<Rightarrow> (string \<rightharpoonup> pyval) \<Rightarrow> concert list" where
  \<comment> \<open>The events are the items of the base store, in its order; \<open>sorted\<close> is stable.\<close>
  "build_concerts_from_local fromisoformat events concert_data artist_base distances =
     map (concert_of fromisoformat concert_data artist_base distances)
       (sort_key (\<lambda>p. ev_start (snd p)) events)"

section \<open>Tax estimator: \_calc\_irc\<close>

text \<open>
  The numbers of the configuration, as the doubles they denote (an integer of the
  file below \<open>2 ^ 53\<close> is its own double).
\<close>

record cfg =
  taxa_iva_rendimentos :: pyfloat
  irc_taxa_reduzida :: pyfloat
  irc_limiar_reduzida :: pyfloat
  irc_taxa_normal :: pyfloat
  taxa_derrama :: pyfloat

definition CONTAB_DEFAULTS :: cfg where
  "CONTAB_DEFAULTS =
     \<lparr>taxa_iva_rendimentos = of_dec 23 0, irc_taxa_reduzida = of_dec 16 0,
      irc_limiar_reduzida = of_dec 50000 0, irc_taxa_normal = of_dec 21 0,
      taxa_derrama = of_dec 15 1\<rparr>"

definition calc_irc :: "pyfloat \<Rightarrow> cfg \<Rightarrow> pyfloat \<times> pyfloat \<times> pyfloat" where
  "calc_irc res c =
     (if fle res fzero then (fzero, fzero, fzero)
      else
        let limiar = irc_limiar_reduzida c;
            taxa_red = fdiv100 (irc_taxa_reduzida c);
            taxa_norm = fdiv100 (irc_taxa_normal c);
            taxa_der = fdiv100 (taxa_derrama c);
            base_red = py_min res limiar;
            base_norm = py_max fzero (fsub res limiar);
            irc = py_round 2 (fadd (fmul base_red taxa_red) (fmul base_norm taxa_norm));
            derrama = py_round 2 (fmul res taxa_der)
        in (irc, derrama, py_round 2 (fadd irc derrama)))"

section \<open>Monthly aggregator: \_build\_contabilidade\<close>

definition cat_alimentacao :: string where
  "cat_alimentacao = ''Alimenta'' @ [CHR 0xE7, CHR 0xE3] @ ''o e Bebidas''"

definition cat_alojamento :: string where
  "cat_alojamento = ''Alojamento e Hotelaria''"

definition cat_combustiveis :: string where
  "cat_combustiveis = ''Combust'' @ [CHR 0xED] @ ''veis e Lubrificantes''"

definition IVA_FACTOR :: "string \<rightharpoonup> pyfloat" where
  "IVA_FACTOR =
     map_of [(cat_alimentacao, of_dec 0 0), (cat_alojamento, of_dec 0 0),
             (cat_combustiveis, of_dec 5 1)]"

definition REPRESENTACAO_CATS :: "string list" where
  "REPRESENTACAO_CATS = [cat_alimentacao, cat_alojamento]"

definition TAXA_TRIB_AUTONOMA :: pyfloat where
  "TAXA_TRIB_AUTONOMA = of_dec 10 2"

definition TAXA_TA_KM :: pyfloat where
  "TAXA_TA_KM = of_dec 5 2"

definition KM_RATE :: pyfloat where
  "KM_RATE = of_dec 40 2"

text \<open>The fields of an expense row that the aggregator reads.\<close>

record despesa =
  d_data_fatura :: string
  d_tipo_despesa :: string
  d_base_tributavel :: pyval
  d_iva :: pyval
  d_iva_6 :: pyval
  d_iva_13 :: pyval
  d_iva_23 :: pyval

type_synonym mkey = "nat \<times> nat"

record rend =
  rend_base :: pyfloat
  rend_iva :: pyfloat

record gast =
  g_base :: pyfloat
  g_iva :: pyfloat
  g_iva_6 :: pyfloat
  g_iva_13 :: pyfloat
  g_iva_23 :: pyfloat
  g_trib_autonoma :: pyfloat
  g_gastos_rep :: pyfloat
  g_por_categoria :: "(string \<times> pyfloat) list"

definition rend0 :: rend where
  "rend0 = \<lparr>rend_base = fzero, rend_iva = fzero\<rparr>"

definition gast0 :: gast where
  "gast0 =
     \<lparr>g_base = fzero, g_iva = fzero, g_iva_6 = fzero, g_iva_13 = fzero, g_iva_23 = fzero,
      g_trib_autonoma = fzero, g_gastos_rep = fzero, g_por_categoria = []\<rparr>"

record summary =
  s_year :: nat
  s_month :: nat
  rendimentos :: pyfloat
  iva_liquidado :: pyfloat
  gastos_despesas :: pyfloat
  gastos_km :: pyfloat
  gastos_total :: pyfloat
  iva_deducivel :: pyfloat
  iva_deducivel_6 :: pyfloat
  iva_deducivel_13 :: pyfloat
  iva_deducivel_23 :: pyfloat
  iva_saldo :: pyfloat
  resultado :: pyfloat
  irc_estimado :: pyfloat
  derrama_estimada :: pyfloat
  irc_subtotal :: pyfloat
  tributacao_autonoma :: pyfloat
  ta_representacao :: pyfloat
  ta_km :: pyfloat
  gastos_representacao :: pyfloat
  irc_total :: pyfloat
  por_categoria :: "(string \<times> pyfloat) list"

definition concert_cachet :: "concert \<Rightarrow> pyfloat" where
  \<comment> \<open>\<open>_to_float(c.get('cachet') or 0)\<close>\<close>
  "concert_cachet c = to_float (if c_cachet c = [] then PNum 0 0 else PStr (c_cachet c))"

definition concert_km :: "concert \<Rightarrow> pyfloat" where
  \<comment> \<open>\<open>_to_float(c.get('km') or 0)\<close>\<close>
  "concert_km c = to_float (if truthy (c_km c) then c_km c else PNum 0 0)"

definition concert_step ::
  "pyfloat \<Rightarrow> concert \<Rightarrow> (mkey \<times> rend) list \<times> (mkey \<times> pyfloat) list
     \<Rightarrow> (mkey \<times> rend) list \<times> (mkey \<times> pyfloat) list" where
  \<comment> \<open>the body of the loop over the concerts, on the dictionaries \<open>rend_mes\<close> and \<open>km_mes\<close>\<close>
  "concert_step taxa_iva c st =
     (let rend_mes = fst st; km_mes = snd st
      in if c_substituto c \<noteq> [] then st
         else
           let cachet = concert_cachet c;
               key = (c_year c, c_month c);
               rend_mes1 =
                 (if fpos cachet
                  then (let r = get_or (map_of rend_mes key) rend0
                        in AList.update key
                             \<lparr>rend_base = fadd (rend_base r) cachet,
                              rend_iva = fadd (rend_iva r) (py_round 4 (fmul cachet taxa_iva))\<rparr>
                             rend_mes)
                  else rend_mes);
               km = concert_km c;
               km_mes1 =
                 (if fpos km
                  then AList.update key (fadd (get_or (map_of km_mes key) fzero) (fmul km KM_RATE))
                         km_mes
                  else km_mes)
           in (rend_mes1, km_mes1))"

definition despesa_step :: "despesa \<Rightarrow> (mkey \<times> gast) list \<Rightarrow> (mkey \<times> gast) list" where
  \<comment> \<open>the body of the loop over the expense rows, on the dictionary \<open>gast_mes\<close>\<close>
  "despesa_step row gast_mes =
     (case strptime_ymd (d_data_fatura row) of
        None \<Rightarrow> gast_mes
      | Some (y, m, d) \<Rightarrow>
          let key = (y, m);
              g = get_or (map_of gast_mes key) gast0;
              base = to_float (d_base_tributavel row);
              iva = to_float (d_iva row);
              iva_6 = to_float (d_iva_6 row);
              iva_13 = to_float (d_iva_13 row);
              iva_23 = to_float (d_iva_23 row);
              cat = (if d_tipo_despesa row = [] then ''Outros'' else d_tipo_despesa row);
              fator = get_or (IVA_FACTOR cat) (of_dec 1 0);
              iva_ded = fmul iva fator;
              iva_nao_ded = fsub iva iva_ded;
              iva_6_ded = fmul iva_6 fator;
              iva_13_ded = fmul iva_13 fator;
              iva_23_ded = fmul iva_23 fator;
              custo_irc = fadd base iva_nao_ded;
              is_rep = (cat \<in> set REPRESENTACAO_CATS);
              trib_auto = (if is_rep then fmul custo_irc TAXA_TRIB_AUTONOMA else fzero)
          in AList.update key
               \<lparr>g_base = fadd (g_base g) custo_irc,
                g_iva = fadd (g_iva g) iva_ded,
                g_iva_6 = fadd (g_iva_6 g) iva_6_ded,
                g_iva_13 = fadd (g_iva_13 g) iva_13_ded,
                g_iva_23 = fadd (g_iva_23 g) iva_23_ded,
                g_trib_autonoma = fadd (g_trib_autonoma g) trib_auto,
                g_gastos_rep = (if is_rep then fadd (g_gastos_rep g) custo_irc else g_gastos_rep g),
                g_por_categoria =
                  AList.update cat (fadd (get_or (map_of (g_por_categoria g) cat) fzero) custo_irc)
                    (g_por_categoria g)\<rparr>
               gast_mes)"

definition month_summary ::
  "cfg \<Rightarrow> (mkey \<times> rend) list \<Rightarrow> (mkey \<times> gast) list \<Rightarrow> (mkey \<times> pyfloat) list \<Rightarrow> mkey
     \<Rightarrow> summary" where
  \<comment> \<open>the body of the loop over the sorted keys\<close>
  "month_summary c rend_mes gast_mes km_mes key =
     (let rend = get_or (map_of rend_mes key) rend0;
          gast = get_or (map_of gast_mes key) gast0;
          km_val = py_round 2 (get_or (map_of km_mes key) fzero);
          g_base1 = py_round 2 (g_base gast);
          g_total = py_round 2 (fadd g_base1 km_val);
          r_base = py_round 2 (rend_base rend);
          iva_liq = py_round 2 (rend_iva rend);
          iva_ded = py_round 2 (g_iva gast);
          iva_sal = py_round 2 (fsub iva_liq iva_ded);
          res = py_round 2 (fsub r_base g_total);
          ta_rep = py_round 2 (g_trib_autonoma gast);
          ta_km1 = py_round 2 (fmul km_val TAXA_TA_KM);
          trib_auto = py_round 2 (fadd ta_rep ta_km1);
          gastos_rep = py_round 2 (g_gastos_rep gast);
          (irc, derrama, irc_sub) = calc_irc res c;
          irc_tot = py_round 2 (fadd irc_sub trib_auto)
      in \<lparr>s_year = fst key, s_month = snd key,
          rendimentos = r_base,
          iva_liquidado = iva_liq,
          gastos_despesas = g_base1,
          gastos_km = km_val,
          gastos_total = g_total,
          iva_deducivel = iva_ded,
          iva_deducivel_6 = py_round 2 (g_iva_6 gast),
          iva_deducivel_13 = py_round 2 (g_iva_13 gast),
          iva_deducivel_23 = py_round 2 (g_iva_23 gast),
          iva_saldo = iva_sal,
          resultado = res,
          irc_estimado = irc,
          derrama_estimada = derrama,
          irc_subtotal = py_round 2 irc_sub,
          tributacao_autonoma = trib_auto,
          ta_representacao = ta_rep,
          ta_km = ta_km1,
          gastos_representacao = gastos_rep,
          irc_total = irc_tot,
          por_categoria = g_por_categoria gast\<rparr>)"

definition build_contabilidade :: "cfg \<Rightarrow> concert list \<Rightarrow> despesa list \<Rightarrow> summary list" where
  \<comment> \<open>\<open>_build_contabilidade\<close>, on what it reads: the configuration, the concerts of
      \<open>_build_concerts_from_local\<close> and the rows of the expense store\<close>
  "build_contabilidade c concerts rows =
     (let taxa_iva = fdiv100 (taxa_iva_rendimentos c);
          st = fold (concert_step taxa_iva) concerts ([], []);
          rend_mes = fst st;
          km_mes = snd st;
          gast_mes = fold despesa_step rows [];
          all_keys = sort (remdups (map fst rend_mes @ map fst gast_mes @ map fst km_mes))
      in map (month_summary c rend_mes gast_mes km_mes) all_keys)"

section \<open>What the loops accumulate\<close>

text \<open>
  The three loops of \<open>_build_contabilidade\<close> share one pattern: a record either is
  passed over or adds its contribution to the entry of its month, which starts from a
  default. The definitions of this section name the parts of that pattern; the lemmas
  further down prove that the loop bodies above are instances of it.
\<close>

definition acc_step ::
  "('x \<Rightarrow> 'k option) \<Rightarrow> 'v \<Rightarrow> ('x \<Rightarrow> 'v \<Rightarrow> 'v) \<Rightarrow> 'x \<Rightarrow> ('k \<times> 'v) list \<Rightarrow> ('k \<times> 'v) list" where
  \<comment> \<open>\<open>d[key] = f(x, d.get(key, default))\<close> for a record with a key, nothing otherwise\<close>
  "acc_step key d f x al =
     (case key x of
        None \<Rightarrow> al
      | Some k \<Rightarrow> AList.update k (f x (get_or (map_of al k) d)) al)"

definition rend_key :: "concert \<Rightarrow> mkey option" where
  \<comment> \<open>the month a concert adds revenue to: no substitute and a positive fee\<close>
  "rend_key c =
     (if c_substituto c = [] \<and> fpos (concert_cachet c) then Some (c_year c, c_month c) else None)"

definition km_key :: "concert \<Rightarrow> mkey option" where
  \<comment> \<open>the month a concert adds mileage to: no substitute and a positive distance\<close>
  "km_key c =
     (if c_substituto c = [] \<and> fpos (concert_km c) then Some (c_year c, c_month c) else None)"

definition rend_add :: "pyfloat \<Rightarrow> concert \<Rightarrow> rend \<Rightarrow> rend" where
  "rend_add t c r =
     \<lparr>rend_base = fadd (rend_base r) (concert_cachet c),
      rend_iva = fadd (rend_iva r) (py_round 4 (fmul (concert_cachet c) t))\<rparr>"

definition km_add :: "concert \<Rightarrow> pyfloat \<Rightarrow> pyfloat" where
  "km_add c v = fadd v (fmul (concert_km c) KM_RATE)"

definition despesa_key :: "despesa \<Rightarrow> mkey option" where
  \<comment> \<open>the month of an expense row, when its date parses\<close>
  "despesa_key row =
     (case strptime_ymd (d_data_fatura row) of None \<Rightarrow> None | Some (y, m, d) \<Rightarrow> Some (y, m))"

definition despesa_cat :: "despesa \<Rightarrow> string" where
  \<comment> \<open>\<open>row.get('tipo_despesa') or 'Outros'\<close>\<close>
  "despesa_cat row = (if d_tipo_despesa row = [] then ''Outros'' else d_tipo_despesa row)"

definition despesa_fator :: "despesa \<Rightarrow> pyfloat" where
  \<comment> \<open>\<open>_IVA_FACTOR.get(cat, 1.0)\<close>\<close>
  "despesa_fator row = get_or (IVA_FACTOR (despesa_cat row)) (of_dec 1 0)"

definition iva_dedutivel :: "pyval \<Rightarrow> despesa \<Rightarrow> pyfloat" where
  \<comment> \<open>the deductible part of a VAT amount of a row: the amount times the factor\<close>
  "iva_dedutivel v row = fmul (to_float v) (despesa_fator row)"

definition custo_irc :: "despesa \<Rightarrow> pyfloat" where
  \<comment> \<open>the cost of a row: its taxable base and the VAT that is not deductible\<close>
  "custo_irc row =
     fadd (to_float (d_base_tributavel row))
       (fsub (to_float (d_iva row)) (iva_dedutivel (d_iva row) row))"

definition is_representacao :: "despesa \<Rightarrow> bool" where
  "is_representacao row = (despesa_cat row \<in> set REPRESENTACAO_CATS)"

definition trib_autonoma :: "despesa \<Rightarrow> pyfloat" where
  \<comment> \<open>the autonomous taxation of a row: 10\% of the cost of a representation expense\<close>
  "trib_autonoma row =
     (if is_representacao row then fmul (custo_irc row) TAXA_TRIB_AUTONOMA else fzero)"

definition gast_add :: "despesa \<Rightarrow> gast \<Rightarrow> gast" where
  "gast_add row g =
     \<lparr>g_base = fadd (g_base g) (custo_irc row),
      g_iva = fadd (g_iva g) (iva_dedutivel (d_iva row) row),
      g_iva_6 = fadd (g_iva_6 g) (iva_dedutivel (d_iva_6 row) row),
      g_iva_13 = fadd (g_iva_13 g) (iva_dedutivel (d_iva_13 row) row),
      g_iva_23 = fadd (g_iva_23 g) (iva_dedutivel (d_iva_23 row) row),
      g_trib_autonoma = fadd (g_trib_autonoma g) (trib_autonoma row),
      g_gastos_rep =
        (if is_representacao row then fadd (g_gastos_rep g) (custo_irc row) else g_gastos_rep g),
      g_por_categoria =
        acc_step (\<lambda>r. Some (despesa_cat r)) fzero (\<lambda>r v. fadd v (custo_irc r)) row
          (g_por_categoria g)\<rparr>"

definition summary_key :: "summary \<Rightarrow> mkey" where
  "summary_key s = (s_year s, s_month s)"

definition month_fees :: "mkey \<Rightarrow> concert list \<Rightarrow> concert list" where
  \<comment> \<open>the concerts that add revenue to a month, in input order\<close>
  "month_fees k cs = filter (\<lambda>c. rend_key c = Some k) cs"

definition month_kms :: "mkey \<Rightarrow> concert list \<Rightarrow> concert list" where
  \<comment> \<open>the concerts that add mileage to a month, in input order\<close>
  "month_kms k cs = filter (\<lambda>c. km_key c = Some k) cs"

definition month_rows :: "mkey \<Rightarrow> despesa list \<Rightarrow> despesa list" where
  \<comment> \<open>the expense rows of a month, in input order\<close>
  "month_rows k rows = filter (\<lambda>r. despesa_key r = Some k) rows"

definition categoria_rows :: "string \<Rightarrow> despesa list \<Rightarrow> despesa list" where
  \<comment> \<open>the rows of a category, in input order\<close>
  "categoria_rows cat rows = filter (\<lambda>r. despesa_cat r = cat) rows"

definition categoria_total :: "summary \<Rightarrow> pyfloat" where
  \<comment> \<open>\<open>sum(s['por_categoria'].values())\<close>\<close>
  "categoria_total s = fsum (map snd (por_categoria s))"

definition date_parses :: "despesa \<Rightarrow> bool" where
  \<comment> \<open>whether the invoice date of a row parses\<close>
  "date_parses row = (strptime_ymd (d_data_fatura row) \<noteq> None)"

subsection \<open>Example records\<close>

definition ex_concert ::
  "string \<Rightarrow> nat \<Rightarrow> string \<Rightarrow> string \<Rightarrow> pyval \<Rightarrow> concert" where
  \<comment> \<open>a concert of 5 \<open>month\<close> 2024 as \<open>_build_concerts_from_local\<close> produces it\<close>
  "ex_concert event_id month fee sub km =
     \<lparr>c_id = event_id, c_date = ''05/'' @ pad2 month @ ''/2024'', c_time = [], c_year = 2024,
      c_month = month, c_artista = ''Ana'', c_evento = ''Gala'', c_local = ''Porto'',
      c_substituto = sub, c_cachet = fee, c_km = km\<rparr>"

definition ex_row :: "string \<Rightarrow> string \<Rightarrow> int \<Rightarrow> int \<Rightarrow> despesa" where
  \<comment> \<open>an expense row as \<open>api_sync_despesas\<close> stores it, with its base and its VAT in
      thousandths and the VAT all at the 23\% rate\<close>
  "ex_row date cat base iv =
     \<lparr>d_data_fatura = date, d_tipo_despesa = cat, d_base_tributavel = PNum base 3,
      d_iva = PNum iv 3, d_iva_6 = PNum 0 0, d_iva_13 = PNum 0 0, d_iva_23 = PNum iv 3\<rparr>"

section \<open>Title parsing\<close>

lemma py_strip_Nil [simp]: "py_strip [] = []"
  by (simp add: py_strip_def)

text \<open>
  Claim C6, as amended. A summary with none of the delimiters \<open>|\<close>, \<open>,\<close> and \<open>SUB\<close> is
  parsed without error into the performer, which is the whole summary with its
  surrounding whitespace removed, and an empty event, venue and substitute.
\<close>

theorem parse_event_title_no_delimiter:
  assumes "CHR ''|'' \<notin> set summary" and "CHR '','' \<notin> set summary" and "\<not> contains_SUB summary"
  shows "parse_event_title summary = (py_strip summary, [], [], [])"
  using assms(1) by (simp add: parse_event_title_def)

theorem parse_event_title_no_delimiter_witness:
  "CHR ''|'' \<notin> set ''  Foo Bar '' \<and> CHR '','' \<notin> set ''  Foo Bar '' \<and> \<not> contains_SUB ''  Foo Bar ''
   \<and> parse_event_title ''  Foo Bar '' = (''Foo Bar'', [], [], [])"
proof -
  have a: "CHR ''|'' \<notin> set ''  Foo Bar ''" by simp
  have b: "CHR '','' \<notin> set ''  Foo Bar ''" by simp
  have c: "\<not> contains_SUB ''  Foo Bar ''" by simp
  have d: "py_strip ''  Foo Bar '' = ''Foo Bar''"
    by (simp add: py_strip_def is_space_def)
  from parse_event_title_no_delimiter [OF a b c] d a b c show ?thesis by simp
qed

text \<open>
  The claim as the specification words it (every derived field empty) fails for the
  summary \<open>Foo\<close>: the performer is \<open>Foo\<close>.
\<close>

theorem parse_event_title_no_delimiter_counterexample:
  "CHR ''|'' \<notin> set ''Foo'' \<and> CHR '','' \<notin> set ''Foo'' \<and> \<not> contains_SUB ''Foo''
   \<and> parse_event_title ''Foo'' = (''Foo'', [], [], [])
   \<and> parse_event_title ''Foo'' \<noteq> ([], [], [], [])"
proof -
  have c: "\<not> contains_SUB ''Foo''" by simp
  have d: "parse_event_title ''Foo'' = (''Foo'', [], [], [])"
    by (simp add: parse_event_title_def py_strip_def is_space_def)
  from c d show ?thesis by simp
qed

section \<open>Revenue normaliser\<close>

text \<open>
  Claim C1, as amended. For the performer, the event, the venue and the substitute, the
  normalised value is the override value whenever the override record holds the field,
  an empty string included, and the title-parsed value only when the record does not
  hold it. The title gives no fee: for an event with no substitute the fee is the
  override fee when that is non-empty, and otherwise the entry of the artist base-fee
  table for the final performer (empty when there is none).
\<close>

theorem override_precedence:
  fixes fromisoformat concert_data artist_base distances event_id ev
  defines "c \<equiv> concert_of fromisoformat concert_data artist_base distances (event_id, ev)"
    and "ov \<equiv> get_or (concert_data event_id) no_override"
    and "parsed \<equiv> parse_event_title (ev_summary ev)"
  shows "c_artista c = (case ov_artista ov of Some v \<Rightarrow> v | None \<Rightarrow> fst parsed)
       \<and> c_evento c = (case ov_evento ov of Some v \<Rightarrow> v | None \<Rightarrow> fst (snd parsed))
       \<and> c_local c = (case ov_local ov of Some v \<Rightarrow> v | None \<Rightarrow> fst (snd (snd parsed)))
       \<and> c_substituto c =
            (case ov_substituto ov of Some v \<Rightarrow> v | None \<Rightarrow> snd (snd (snd parsed)))
       \<and> (c_substituto c = [] \<longrightarrow>
            c_cachet c =
              (case ov_cachet ov of
                 Some v \<Rightarrow> if v \<noteq> [] then v else get_or (artist_base (c_artista c)) []
               | None \<Rightarrow> get_or (artist_base (c_artista c)) []))"
  unfolding c_def ov_def parsed_def
  by (simp add: concert_of_def Let_def get_or_def case_prod_unfold split: option.splits)

lemma parse_Ana_Gala_Porto:
  "parse_event_title ''Ana | Gala, Porto'' = (''Ana'', ''Gala'', ''Porto'', [])"
  by (simp add: parse_event_title_def split_first_def py_strip_def is_space_def is_word_def)

theorem override_precedence_witness:
  "c_substituto
     (concert_of (\<lambda>s. None)
        [''e1'' \<mapsto> no_override\<lparr>ov_evento := Some ''Festa'', ov_cachet := Some []\<rparr>]
        [''Ana'' \<mapsto> ''500''] Map.empty
        (''e1'', \<lparr>ev_start = ''2024-01-05'', ev_summary = ''Ana | Gala, Porto''\<rparr>)) = []
   \<and> c_artista
     (concert_of (\<lambda>s. None)
        [''e1'' \<mapsto> no_override\<lparr>ov_evento := Some ''Festa'', ov_cachet := Some []\<rparr>]
        [''Ana'' \<mapsto> ''500''] Map.empty
        (''e1'', \<lparr>ev_start = ''2024-01-05'', ev_summary = ''Ana | Gala, Porto''\<rparr>)) = ''Ana''
   \<and> c_evento
     (concert_of (\<lambda>s. None)
        [''e1'' \<mapsto> no_override\<lparr>ov_evento := Some ''Festa'', ov_cachet := Some []\<rparr>]
        [''Ana'' \<mapsto> ''500''] Map.empty
        (''e1'', \<lparr>ev_start = ''2024-01-05'', ev_summary = ''Ana | Gala, Porto''\<rparr>)) = ''Festa''
   \<and> c_cachet
     (concert_of (\<lambda>s. None)
        [''e1'' \<mapsto> no_override\<lparr>ov_evento := Some ''Festa'', ov_cachet := Some []\<rparr>]
        [''Ana'' \<mapsto> ''500''] Map.empty
        (''e1'', \<lparr>ev_start = ''2024-01-05'', ev_summary = ''Ana | Gala, Porto''\<rparr>)) = ''500''"
  using override_precedence
    [of "\<lambda>s. None"
        "[''e1'' \<mapsto> no_override\<lparr>ov_evento := Some ''Festa'', ov_cachet := Some []\<rparr>]"
        "[''Ana'' \<mapsto> ''500'']" Map.empty "''e1''"
        "\<lparr>ev_start = ''2024-01-05'', ev_summary = ''Ana | Gala, Porto''\<rparr>"]
  by (simp add: get_or_def no_override_def parse_Ana_Gala_Porto)

text \<open>
  The claim as the specification words it fails when the stored override is the empty
  string: the title gives the performer \<open>Ana\<close>, the override record holds an empty
  performer, and the normalised performer is empty.
\<close>

theorem override_precedence_counterexample:
  "fst (parse_event_title ''Ana | Gala, Porto'') = ''Ana''
   \<and> c_artista
       (concert_of (\<lambda>s. None) [''e1'' \<mapsto> no_override\<lparr>ov_artista := Some []\<rparr>] Map.empty
          Map.empty (''e1'', \<lparr>ev_start = ''2024-01-05'', ev_summary = ''Ana | Gala, Porto''\<rparr>))
     = []"
  by (simp add: parse_Ana_Gala_Porto concert_of_def get_or_def no_override_def Let_def
      case_prod_unfold)

section \<open>The loops as accumulations\<close>

lemma acc_step_lookup:
  "map_of (acc_step key d f x al) k =
     (if key x = Some k then Some (f x (get_or (map_of al k) d)) else map_of al k)"
  by (auto simp: acc_step_def update_conv' split: option.splits)

lemma acc_fold_lookup:
  "map_of (fold (acc_step key d f) xs al) k =
     (if filter (\<lambda>x. key x = Some k) xs = [] then map_of al k
      else Some (fold f (filter (\<lambda>x. key x = Some k) xs) (get_or (map_of al k) d)))"
proof (induction xs arbitrary: al)
  case Nil
  then show ?case by simp
next
  case (Cons x xs)
  show ?case
  proof (cases "key x = Some k")
    case True
    then show ?thesis
      by (simp add: Cons.IH acc_step_lookup get_or_def)
  next
    case False
    then show ?thesis
      by (simp add: Cons.IH acc_step_lookup)
  qed
qed

lemma acc_fold_get:
  "get_or (map_of (fold (acc_step key d f) xs []) k) d = fold f (filter (\<lambda>x. key x = Some k) xs) d"
  by (simp add: acc_fold_lookup get_or_def)

lemma acc_step_keys:
  "fst ` set (acc_step key d f x al) = fst ` set al \<union> {k. key x = Some k}"
  by (auto simp: acc_step_def dom_update split: option.splits)

lemma acc_fold_keys:
  "fst ` set (fold (acc_step key d f) xs al) = fst ` set al \<union> {k. \<exists>x \<in> set xs. key x = Some k}"
proof (induction xs arbitrary: al)
  case Nil
  then show ?case by simp
next
  case (Cons x xs)
  show ?case by (simp add: Cons.IH acc_step_keys) blast
qed

lemma concert_step_acc:
  "concert_step t c st =
     (acc_step rend_key rend0 (rend_add t) c (fst st), acc_step km_key fzero km_add c (snd st))"
  by (cases st)
    (simp add: concert_step_def acc_step_def rend_key_def km_key_def rend_add_def km_add_def
      Let_def)

lemma fold_concert_step_acc:
  "fold (concert_step t) cs st =
     (fold (acc_step rend_key rend0 (rend_add t)) cs (fst st),
      fold (acc_step km_key fzero km_add) cs (snd st))"
  by (induction cs arbitrary: st) (simp_all add: concert_step_acc)

lemma despesa_step_acc: "despesa_step row al = acc_step despesa_key gast0 gast_add row al"
  by (simp add: despesa_step_def acc_step_def despesa_key_def gast_add_def custo_irc_def
      iva_dedutivel_def trib_autonoma_def despesa_fator_def despesa_cat_def is_representacao_def
      Let_def split: option.splits)

lemma fold_despesa_step_acc:
  "fold despesa_step rows al = fold (acc_step despesa_key gast0 gast_add) rows al"
  by (induction rows arbitrary: al) (simp_all add: despesa_step_acc)

lemma fold_fadd: "fold (\<lambda>r v. fadd v (f r)) ys v = foldl fadd v (map f ys)"
  by (induction ys arbitrary: v) simp_all

lemma fold_rend_add:
  "fold (rend_add t) ys r =
     \<lparr>rend_base = foldl fadd (rend_base r) (map concert_cachet ys),
      rend_iva = foldl fadd (rend_iva r) (map (\<lambda>c. py_round 4 (fmul (concert_cachet c) t)) ys)\<rparr>"
  by (induction ys arbitrary: r) (simp_all add: rend_add_def)

lemma fold_km_add:
  "fold km_add ys v = foldl fadd v (map (\<lambda>c. fmul (concert_km c) KM_RATE) ys)"
  by (induction ys arbitrary: v) (simp_all add: km_add_def)

lemma fold_gast_add_base:
  "g_base (fold gast_add ys g) = foldl fadd (g_base g) (map custo_irc ys)"
  by (induction ys arbitrary: g) (simp_all add: gast_add_def)

lemma fold_gast_add_iva:
  "g_iva (fold gast_add ys g) = foldl fadd (g_iva g) (map (\<lambda>r. iva_dedutivel (d_iva r) r) ys)"
  by (induction ys arbitrary: g) (simp_all add: gast_add_def)






lemma fold_gast_add_cat:
  "g_por_categoria (fold gast_add ys g)
     = fold (acc_step (\<lambda>r. Some (despesa_cat r)) fzero (\<lambda>r v. fadd v (custo_irc r))) ys
         (g_por_categoria g)"
  by (induction ys arbitrary: g) (simp_all add: gast_add_def)

lemma gast0_fields:
  "g_base gast0 = fzero" "g_iva gast0 = fzero" "g_iva_6 gast0 = fzero" "g_iva_13 gast0 = fzero"
  "g_iva_23 gast0 = fzero" "g_trib_autonoma gast0 = fzero" "g_gastos_rep gast0 = fzero"
  "g_por_categoria gast0 = []"
  by (simp_all add: gast0_def)


lemma despesa_key_None: "despesa_key r = None \<longleftrightarrow> \<not> date_parses r"
  by (auto simp: despesa_key_def date_parses_def split: option.splits)

section \<open>The summaries in terms of the input\<close>

lemma month_summary_key [simp]: "summary_key (month_summary c R G K k) = k"
  by (simp add: month_summary_def summary_key_def Let_def case_prod_unfold)

lemma month_summary_key_comp: "summary_key \<circ> month_summary c R G K = id"
  by (rule ext) simp

lemma rend_lookup:
  "get_or (map_of (fst (fold (concert_step t) cs ([], []))) k) rend0 =
     \<lparr>rend_base = fsum (map concert_cachet (month_fees k cs)),
      rend_iva = fsum (map (\<lambda>c. py_round 4 (fmul (concert_cachet c) t)) (month_fees k cs))\<rparr>"
  by (simp add: fold_concert_step_acc acc_fold_get fold_rend_add rend0_def month_fees_def fsum_def)

lemma km_lookup:
  "get_or (map_of (snd (fold (concert_step t) cs ([], []))) k) fzero =
     fsum (map (\<lambda>c. fmul (concert_km c) KM_RATE) (month_kms k cs))"
  by (simp add: fold_concert_step_acc acc_fold_get fold_km_add month_kms_def fsum_def)

lemma gast_lookup:
  "get_or (map_of (fold despesa_step rows []) k) gast0 = fold gast_add (month_rows k rows) gast0"
  by (simp add: fold_despesa_step_acc acc_fold_get month_rows_def)

lemma por_categoria_lookup:
  "map_of (g_por_categoria (fold gast_add ys gast0)) c =
     (if categoria_rows c ys = [] then None
      else Some (fsum (map custo_irc (categoria_rows c ys))))"
  by (simp add: fold_gast_add_cat acc_fold_lookup fold_fadd gast0_fields get_or_def
      categoria_rows_def fsum_def)

lemma por_categoria_keys:
  "fst ` set (g_por_categoria (fold gast_add ys gast0)) = despesa_cat ` set ys"
  by (auto simp: fold_gast_add_cat acc_fold_keys gast0_fields)

lemma build_contabilidade_keys:
  "map summary_key (build_contabilidade cf cs rows) =
     sort (remdups
       (map fst (fst (fold (concert_step (fdiv100 (taxa_iva_rendimentos cf))) cs ([], [])))
        @ map fst (fold despesa_step rows [])
        @ map fst (snd (fold (concert_step (fdiv100 (taxa_iva_rendimentos cf))) cs ([], [])))))"
  by (simp add: build_contabilidade_def Let_def month_summary_key_comp)

lemma build_contabilidade_key_set:
  "set (map summary_key (build_contabilidade cf cs rows)) =
     {k. \<exists>c \<in> set cs. rend_key c = Some k} \<union> {k. \<exists>r \<in> set rows. despesa_key r = Some k}
       \<union> {k. \<exists>c \<in> set cs. km_key c = Some k}"
  unfolding build_contabilidade_keys
  by (simp add: fold_concert_step_acc fold_despesa_step_acc acc_fold_keys Un_assoc)

lemma build_contabilidade_sorted:
  "sorted (map summary_key (build_contabilidade cf cs rows))
   \<and> distinct (map summary_key (build_contabilidade cf cs rows))"
  unfolding build_contabilidade_keys by simp

lemma build_contabilidade_elem:
  assumes "s \<in> set (build_contabilidade cf cs rows)"
  shows "s = month_summary cf
               (fst (fold (concert_step (fdiv100 (taxa_iva_rendimentos cf))) cs ([], [])))
               (fold despesa_step rows [])
               (snd (fold (concert_step (fdiv100 (taxa_iva_rendimentos cf))) cs ([], [])))
               (summary_key s)"
  using assms by (auto simp: build_contabilidade_def Let_def)

lemma month_summary_fields:
  "rendimentos (month_summary c R G K k) = py_round 2 (rend_base (get_or (map_of R k) rend0))"
  "iva_liquidado (month_summary c R G K k) = py_round 2 (rend_iva (get_or (map_of R k) rend0))"
  "gastos_km (month_summary c R G K k) = py_round 2 (get_or (map_of K k) fzero)"
  "gastos_despesas (month_summary c R G K k) = py_round 2 (g_base (get_or (map_of G k) gast0))"
  "iva_deducivel (month_summary c R G K k) = py_round 2 (g_iva (get_or (map_of G k) gast0))"
  "iva_deducivel_6 (month_summary c R G K k) = py_round 2 (g_iva_6 (get_or (map_of G k) gast0))"
  "iva_deducivel_13 (month_summary c R G K k) = py_round 2 (g_iva_13 (get_or (map_of G k) gast0))"
  "iva_deducivel_23 (month_summary c R G K k) = py_round 2 (g_iva_23 (get_or (map_of G k) gast0))"
  "ta_representacao (month_summary c R G K k)
     = py_round 2 (g_trib_autonoma (get_or (map_of G k) gast0))"
  "gastos_representacao (month_summary c R G K k)
     = py_round 2 (g_gastos_rep (get_or (map_of G k) gast0))"
  "ta_km (month_summary c R G K k)
     = py_round 2 (fmul (gastos_km (month_summary c R G K k)) TAXA_TA_KM)"
  "por_categoria (month_summary c R G K k) = g_por_categoria (get_or (map_of G k) gast0)"
  by (simp_all add: month_summary_def Let_def case_prod_unfold)

section \<open>Records that a loop passes over\<close>

lemma concert_step_substituto: "c_substituto c \<noteq> [] \<Longrightarrow> concert_step t c st = st"
  by (simp add: concert_step_def Let_def)

lemma despesa_step_unparsed:
  "strptime_ymd (d_data_fatura row) = None \<Longrightarrow> despesa_step row g = g"
  by (simp add: despesa_step_def)

lemma fold_concert_step_skip:
  "c_substituto c \<noteq> [] \<Longrightarrow>
   fold (concert_step t) (cs1 @ c # cs2) st = fold (concert_step t) (cs1 @ cs2) st"
  by (simp add: concert_step_substituto)

lemma fold_despesa_step_skip:
  "strptime_ymd (d_data_fatura row) = None \<Longrightarrow>
   fold despesa_step (rs1 @ row # rs2) g = fold despesa_step (rs1 @ rs2) g"
  by (simp add: despesa_step_unparsed)

lemma build_contabilidade_skip_concert:
  assumes "c_substituto c \<noteq> []"
  shows "build_contabilidade cf (cs1 @ c # cs2) rows = build_contabilidade cf (cs1 @ cs2) rows"
  unfolding build_contabilidade_def fold_concert_step_skip [OF assms] by (rule refl)

lemma build_contabilidade_skip_despesa:
  assumes "strptime_ymd (d_data_fatura row) = None"
  shows "build_contabilidade cf cs (rs1 @ row # rs2) = build_contabilidade cf cs (rs1 @ rs2)"
  unfolding build_contabilidade_def fold_despesa_step_skip [OF assms] by (rule refl)

lemma fold_despesa_step_filter:
  "fold despesa_step rows g = fold despesa_step (filter date_parses rows) g"
proof (induction rows arbitrary: g)
  case Nil
  then show ?case by simp
next
  case (Cons r rows)
  show ?case
  proof (cases "date_parses r")
    case True
    then show ?thesis by (simp add: Cons.IH)
  next
    case False
    then have "strptime_ymd (d_data_fatura r) = None"
      unfolding date_parses_def by blast
    then have "despesa_step r g = g"
      by (rule despesa_step_unparsed)
    with False show ?thesis by (simp add: Cons.IH)
  qed
qed

lemma to_float_zero_text: "to_float (PStr ''0'') = fzero"
  by code_simp

text \<open>
  Claim C7. An event whose normalised substitute is not empty has its fee set to the
  text \<open>0\<close>, which reads as the amount zero, whatever the override, the title and the
  artist base-fee table say. In the aggregation an event with a substitute leaves the
  revenue dictionary \<open>rend_mes\<close> as it was, so the revenue base and the VAT charged of
  every month are what they are without that event.
\<close>

theorem substitute_forces_zero_fee:
  "(c_substituto (concert_of fromisoformat concert_data artist_base distances p) \<noteq> [] \<longrightarrow>
      c_cachet (concert_of fromisoformat concert_data artist_base distances p) = ''0''
      \<and> concert_cachet (concert_of fromisoformat concert_data artist_base distances p) = fzero)
   \<and> (c_substituto c \<noteq> [] \<longrightarrow>
        fst (fold (concert_step t) (cs1 @ c # cs2) st) = fst (fold (concert_step t) (cs1 @ cs2) st)
        \<and> map (\<lambda>s. (s_year s, s_month s, rendimentos s, iva_liquidado s))
              (build_contabilidade cf (cs1 @ c # cs2) rows)
          = map (\<lambda>s. (s_year s, s_month s, rendimentos s, iva_liquidado s))
              (build_contabilidade cf (cs1 @ cs2) rows))"
proof -
  have fee: "c_cachet (concert_of fromisoformat concert_data artist_base distances p) = ''0''"
    if "c_substituto (concert_of fromisoformat concert_data artist_base distances p) \<noteq> []"
    using that by (simp add: concert_of_def Let_def case_prod_unfold split: option.splits)
  have zero: "concert_cachet c' = fzero" if "c_cachet c' = ''0''" for c'
    using that by (simp add: concert_cachet_def to_float_zero_text)
  show ?thesis
    using fee zero fold_concert_step_skip [of c t cs1 cs2 st]
      build_contabilidade_skip_concert [of c cf cs1 cs2 rows]
    by auto
qed

theorem substitute_forces_zero_fee_witness:
  "c_substituto
     (concert_of (\<lambda>s. None) [''e1'' \<mapsto> no_override\<lparr>ov_substituto := Some ''Rui'', ov_cachet := Some ''900''\<rparr>]
        [''Ana'' \<mapsto> ''500''] Map.empty
        (''e1'', \<lparr>ev_start = ''2024-01-05'', ev_summary = ''Ana | Gala, Porto''\<rparr>)) \<noteq> []
   \<and> c_cachet
     (concert_of (\<lambda>s. None) [''e1'' \<mapsto> no_override\<lparr>ov_substituto := Some ''Rui'', ov_cachet := Some ''900''\<rparr>]
        [''Ana'' \<mapsto> ''500''] Map.empty
        (''e1'', \<lparr>ev_start = ''2024-01-05'', ev_summary = ''Ana | Gala, Porto''\<rparr>)) = ''0''
   \<and> fst (fold (concert_step (of_dec 23 2))
        [\<lparr>c_id = ''e1'', c_date = ''05/01/2024'', c_time = [], c_year = 2024, c_month = 1,
          c_artista = ''Ana'', c_evento = ''Gala'', c_local = ''Porto'', c_substituto = ''Rui'',
          c_cachet = ''900'', c_km = PNum 100 0\<rparr>] ([], [])) = []"
proof -
  let ?k = "concert_of (\<lambda>s. None) [''e1'' \<mapsto> no_override\<lparr>ov_substituto := Some ''Rui'', ov_cachet := Some ''900''\<rparr>]
        [''Ana'' \<mapsto> ''500''] Map.empty
        (''e1'', \<lparr>ev_start = ''2024-01-05'', ev_summary = ''Ana | Gala, Porto''\<rparr>)"
  let ?c = "\<lparr>c_id = ''e1'', c_date = ''05/01/2024'', c_time = [], c_year = 2024, c_month = 1,
          c_artista = ''Ana'', c_evento = ''Gala'', c_local = ''Porto'', c_substituto = ''Rui'',
          c_cachet = ''900'', c_km = PNum 100 0\<rparr>"
  have s: "c_substituto ?k \<noteq> []"
    by (simp add: concert_of_def get_or_def no_override_def Let_def case_prod_unfold)
  have s': "c_substituto ?c \<noteq> []" by simp
  note th = substitute_forces_zero_fee
    [of "\<lambda>s. None" "[''e1'' \<mapsto> no_override\<lparr>ov_substituto := Some ''Rui'', ov_cachet := Some ''900''\<rparr>]"
        "[''Ana'' \<mapsto> ''500'']" Map.empty
        "(''e1'', \<lparr>ev_start = ''2024-01-05'', ev_summary = ''Ana | Gala, Porto''\<rparr>)"
        ?c "of_dec 23 2" "[]" "[]" "([], [])" CONTAB_DEFAULTS "[]"]
  from th s have a: "c_cachet ?k = ''0''" by blast
  from th s' have "fst (fold (concert_step (of_dec 23 2)) ([] @ ?c # []) ([], []))
      = fst (fold (concert_step (of_dec 23 2)) ([] @ []) ([], []))" by blast
  then have b: "fst (fold (concert_step (of_dec 23 2)) [?c] ([], [])) = []" by simp
  from s a b show ?thesis by blast
qed

text \<open>
  Claim C10. An event with a substitute leaves the mileage dictionary \<open>km_mes\<close> as it
  was too, known distance or not: the loop passes over it before it reads the distance.
  The monthly summaries are those of the input without the event.
\<close>

theorem substitute_contributes_no_mileage:
  assumes "c_substituto c \<noteq> []"
  shows "snd (fold (concert_step t) (cs1 @ c # cs2) st) = snd (fold (concert_step t) (cs1 @ cs2) st)
       \<and> build_contabilidade cf (cs1 @ c # cs2) rows = build_contabilidade cf (cs1 @ cs2) rows"
  using assms fold_concert_step_skip [of c t cs1 cs2 st]
    build_contabilidade_skip_concert [of c cf cs1 cs2 rows]
  by simp

theorem substitute_contributes_no_mileage_witness:
  "c_substituto
     \<lparr>c_id = ''e1'', c_date = ''05/01/2024'', c_time = [], c_year = 2024, c_month = 1,
      c_artista = ''Ana'', c_evento = ''Gala'', c_local = ''Porto'', c_substituto = ''Rui'',
      c_cachet = ''0'', c_km = PNum 100 0\<rparr> \<noteq> []
   \<and> build_contabilidade CONTAB_DEFAULTS
       [\<lparr>c_id = ''e1'', c_date = ''05/01/2024'', c_time = [], c_year = 2024, c_month = 1,
         c_artista = ''Ana'', c_evento = ''Gala'', c_local = ''Porto'', c_substituto = ''Rui'',
         c_cachet = ''0'', c_km = PNum 100 0\<rparr>] [] = []"
proof -
  let ?c = "\<lparr>c_id = ''e1'', c_date = ''05/01/2024'', c_time = [], c_year = 2024, c_month = 1,
      c_artista = ''Ana'', c_evento = ''Gala'', c_local = ''Porto'', c_substituto = ''Rui'',
      c_cachet = ''0'', c_km = PNum 100 0\<rparr>"
  have s: "c_substituto ?c \<noteq> []" by simp
  have e: "build_contabilidade CONTAB_DEFAULTS [] [] = []"
    by (simp add: build_contabilidade_def)
  from substitute_contributes_no_mileage [OF s, of _ "[]" "[]" _ CONTAB_DEFAULTS "[]"] e
  have "build_contabilidade CONTAB_DEFAULTS [?c] [] = []" by simp
  with s show ?thesis by blast
qed

section \<open>Malformed dates\<close>

lemma gastos_despesas_sum:
  assumes "s \<in> set (build_contabilidade cf cs rows)"
  shows "gastos_despesas s = py_round 2 (fsum (map custo_irc (month_rows (summary_key s) rows)))"
  by (subst build_contabilidade_elem [OF assms])
    (simp add: month_summary_fields gast_lookup fold_gast_add_base gast0_fields fsum_def)

lemma iva_deducivel_sum:
  assumes "s \<in> set (build_contabilidade cf cs rows)"
  shows "iva_deducivel s
    = py_round 2 (fsum (map (\<lambda>r. iva_dedutivel (d_iva r) r) (month_rows (summary_key s) rows)))"
  by (subst build_contabilidade_elem [OF assms])
    (simp add: month_summary_fields gast_lookup fold_gast_add_iva gast0_fields fsum_def)

lemma parsed_row_month:
  assumes "r \<in> set rows" and "strptime_ymd (d_data_fatura r) = Some (y, m, d)"
  shows "(y, m) \<in> set (map summary_key (build_contabilidade cf cs rows))
       \<and> r \<in> set (month_rows (y, m) rows)"
proof -
  have k: "despesa_key r = Some (y, m)"
    using assms(2) by (simp add: despesa_key_def)
  have "(y, m) \<in> {k. \<exists>r \<in> set rows. despesa_key r = Some k}"
    using assms(1) k by blast
  then have "(y, m) \<in> set (map summary_key (build_contabilidade cf cs rows))"
    unfolding build_contabilidade_key_set by blast
  moreover have "r \<in> set (month_rows (y, m) rows)"
    using assms(1) k by (simp add: month_rows_def)
  ultimately show ?thesis by blast
qed

text \<open>
  Claim C9. Every \<open>raise\<close> that a malformed date can cause is a \<open>None\<close> of
  \<open>strptime_ymd\<close> or of \<open>parse_start\<close>, and both loops have a branch for it, so the two
  functions return a result on every input. The aggregation of the expense rows is
  that of the rows whose invoice date parses: a row whose date does not parse adds
  nothing, and every row whose date parses has its month in the output and is one of
  the rows of that month, whose costs and deductible VAT the emitted expense base and
  deductible VAT add up. Every event gives its concert, and one whose start does not
  parse keeps the raw text as its date, with an empty time and 0 for the year and the
  month.
\<close>

theorem malformed_dates_absorbed:
  "build_contabilidade cf cs rows = build_contabilidade cf cs (filter date_parses rows)
   \<and> (\<forall>r \<in> set rows. \<forall>y m d. strptime_ymd (d_data_fatura r) = Some (y, m, d) \<longrightarrow>
          (y, m) \<in> set (map summary_key (build_contabilidade cf cs rows))
          \<and> r \<in> set (month_rows (y, m) rows))
   \<and> (\<forall>s \<in> set (build_contabilidade cf cs rows).
          gastos_despesas s
            = py_round 2 (fsum (map custo_irc (month_rows (summary_key s) rows)))
          \<and> iva_deducivel s
            = py_round 2 (fsum (map (\<lambda>r. iva_dedutivel (d_iva r) r)
                                   (month_rows (summary_key s) rows))))
   \<and> mset (build_concerts_from_local fromisoformat events concert_data artist_base distances)
       = mset (map (concert_of fromisoformat concert_data artist_base distances) events)
   \<and> (parse_start fromisoformat (ev_start ev) = None \<longrightarrow>
        c_date (concert_of fromisoformat concert_data artist_base distances (event_id, ev))
          = ev_start ev
        \<and> c_time (concert_of fromisoformat concert_data artist_base distances (event_id, ev)) = []
        \<and> c_year (concert_of fromisoformat concert_data artist_base distances (event_id, ev)) = 0
        \<and> c_month (concert_of fromisoformat concert_data artist_base distances (event_id, ev)) = 0)"
proof -
  have rows: "build_contabilidade cf cs rows = build_contabilidade cf cs (filter date_parses rows)"
    unfolding build_contabilidade_def fold_despesa_step_filter [of rows] by (rule refl)
  have ev: "c_date (concert_of fromisoformat concert_data artist_base distances (event_id, ev))
          = ev_start ev
        \<and> c_time (concert_of fromisoformat concert_data artist_base distances (event_id, ev)) = []
        \<and> c_year (concert_of fromisoformat concert_data artist_base distances (event_id, ev)) = 0
        \<and> c_month (concert_of fromisoformat concert_data artist_base distances (event_id, ev)) = 0"
    if "parse_start fromisoformat (ev_start ev) = None"
    using that by (simp add: concert_of_def Let_def case_prod_unfold)
  have all: "mset (build_concerts_from_local fromisoformat events concert_data artist_base
      distances) = mset (map (concert_of fromisoformat concert_data artist_base distances) events)"
    by (simp add: build_concerts_from_local_def)
  from rows ev all parsed_row_month [of _ rows _ _ _ cf cs]
    gastos_despesas_sum [of _ cf cs rows] iva_deducivel_sum [of _ cf cs rows]
  show ?thesis by blast
qed

theorem malformed_dates_absorbed_witness:
  "build_contabilidade CONTAB_DEFAULTS []
       [ex_row ''2024-01-10'' ''Seguros'' 50000 0, ex_row ''2024-13-01'' ''Seguros'' 70000 0,
        ex_row ''2024-01-20'' ''Seguros'' 25000 0]
     = build_contabilidade CONTAB_DEFAULTS []
       [ex_row ''2024-01-10'' ''Seguros'' 50000 0, ex_row ''2024-01-20'' ''Seguros'' 25000 0]
   \<and> map summary_key (build_contabilidade CONTAB_DEFAULTS []
       [ex_row ''2024-01-10'' ''Seguros'' 50000 0, ex_row ''2024-13-01'' ''Seguros'' 70000 0,
        ex_row ''2024-01-20'' ''Seguros'' 25000 0]) = [(2024, 1)]
   \<and> map gastos_despesas (build_contabilidade CONTAB_DEFAULTS []
       [ex_row ''2024-01-10'' ''Seguros'' 50000 0, ex_row ''2024-13-01'' ''Seguros'' 70000 0,
        ex_row ''2024-01-20'' ''Seguros'' 25000 0]) = [of_dec 75 0]
   \<and> c_date (concert_of (\<lambda>s. None) Map.empty Map.empty Map.empty
        (''e1'', \<lparr>ev_start = ''next week'', ev_summary = ''Ana''\<rparr>)) = ''next week''
   \<and> c_year (concert_of (\<lambda>s. None) Map.empty Map.empty Map.empty
        (''e1'', \<lparr>ev_start = ''next week'', ev_summary = ''Ana''\<rparr>)) = 0
   \<and> c_month (concert_of (\<lambda>s. None) Map.empty Map.empty Map.empty
        (''e1'', \<lparr>ev_start = ''next week'', ev_summary = ''Ana''\<rparr>)) = 0"
proof -
  let ?rows = "[ex_row ''2024-01-10'' ''Seguros'' 50000 0, ex_row ''2024-13-01'' ''Seguros'' 70000 0,
        ex_row ''2024-01-20'' ''Seguros'' 25000 0]"
  let ?ev = "\<lparr>ev_start = ''next week'', ev_summary = ''Ana''\<rparr>"
  have f: "filter date_parses ?rows
      = [ex_row ''2024-01-10'' ''Seguros'' 50000 0, ex_row ''2024-01-20'' ''Seguros'' 25000 0]"
    by code_simp
  note th = malformed_dates_absorbed
    [where cf = CONTAB_DEFAULTS and cs = "[]" and rows = ?rows and fromisoformat = "\<lambda>s. None"
       and ev = ?ev and concert_data = Map.empty and artist_base = Map.empty
       and distances = Map.empty and event_id = "''e1''" and events = "[]"]
  have a: "build_contabilidade CONTAB_DEFAULTS [] ?rows
      = build_contabilidade CONTAB_DEFAULTS []
          [ex_row ''2024-01-10'' ''Seguros'' 50000 0, ex_row ''2024-01-20'' ''Seguros'' 25000 0]"
    using th [THEN conjunct1] unfolding f .
  have k: "map summary_key (build_contabilidade CONTAB_DEFAULTS [] ?rows) = [(2024, 1)]"
    by code_simp
  have v: "map gastos_despesas (build_contabilidade CONTAB_DEFAULTS [] ?rows) = [of_dec 75 0]"
    by code_simp
  have b: "parse_start (\<lambda>s. None) (ev_start ?ev) = None"
    by code_simp
  note d = th [THEN conjunct2, THEN conjunct2, THEN conjunct2, THEN conjunct2, THEN mp, OF b]
  have d1: "c_date (concert_of (\<lambda>s. None) Map.empty Map.empty Map.empty (''e1'', ?ev))
      = ''next week''"
    using d [THEN conjunct1] unfolding event.simps .
  note d3 = d [THEN conjunct2, THEN conjunct2, THEN conjunct1]
  note d4 = d [THEN conjunct2, THEN conjunct2, THEN conjunct2]
  show ?thesis
    by (intro conjI a k v d1 d3 d4)
qed

section \<open>Tax estimator\<close>

text \<open>
  Claim C4, as amended. A net result of zero or less gives zero for the income tax, the
  surtax and the subtotal. Any other net result gives the income tax
  \<open>min(result, threshold) * (reduced rate / 100) + max(0, result - threshold) * (normal
  rate / 100)\<close> and the surtax \<open>result * (surtax rate / 100)\<close>, each rounded to two
  decimals, and their sum rounded to two decimals as the subtotal, where every
  quotient, product and sum is the operation on doubles and the rounding to two
  decimals acts on the exact value of the double it is given. No decimal rule decides
  a half cent: it is the double nearest to the product that is rounded.
\<close>

theorem calc_irc_policy:
  "(fle res fzero \<longrightarrow> calc_irc res c = (fzero, fzero, fzero))
   \<and> (\<not> fle res fzero \<longrightarrow>
        calc_irc res c =
          (let irc = py_round 2
                       (fadd (fmul (py_min res (irc_limiar_reduzida c))
                                   (fdiv100 (irc_taxa_reduzida c)))
                             (fmul (py_max fzero (fsub res (irc_limiar_reduzida c)))
                                   (fdiv100 (irc_taxa_normal c))));
               derrama = py_round 2 (fmul res (fdiv100 (taxa_derrama c)))
           in (irc, derrama, py_round 2 (fadd irc derrama))))"
  by (simp add: calc_irc_def Let_def)

text \<open>
  The example of the specification: a net result of 1800 under the default rates gives
  288.00, 27.00 and 315.00.
\<close>

theorem calc_irc_policy_witness:
  "\<not> fle (of_dec 1800 0) fzero
   \<and> calc_irc (of_dec 1800 0) CONTAB_DEFAULTS = (of_dec 288 0, of_dec 27 0, of_dec 315 0)
   \<and> fle (of_dec (- 5) 0) fzero
   \<and> calc_irc (of_dec (- 5) 0) CONTAB_DEFAULTS = (fzero, fzero, fzero)"
proof -
  have pos: "\<not> fle (of_dec 1800 0) fzero" by code_simp
  have neg: "fle (of_dec (- 5) 0) fzero" by code_simp
  have v: "(let irc = py_round 2
                       (fadd (fmul (py_min (of_dec 1800 0) (irc_limiar_reduzida CONTAB_DEFAULTS))
                                   (fdiv100 (irc_taxa_reduzida CONTAB_DEFAULTS)))
                             (fmul (py_max fzero
                                      (fsub (of_dec 1800 0) (irc_limiar_reduzida CONTAB_DEFAULTS)))
                                   (fdiv100 (irc_taxa_normal CONTAB_DEFAULTS))));
               derrama = py_round 2 (fmul (of_dec 1800 0) (fdiv100 (taxa_derrama CONTAB_DEFAULTS)))
           in (irc, derrama, py_round 2 (fadd irc derrama)))
        = (of_dec 288 0, of_dec 27 0, of_dec 315 0)"
    by code_simp
  have a: "calc_irc (of_dec 1800 0) CONTAB_DEFAULTS = (of_dec 288 0, of_dec 27 0, of_dec 315 0)"
    using calc_irc_policy [of "of_dec 1800 0" CONTAB_DEFAULTS, THEN conjunct2, THEN mp, OF pos]
    unfolding v .
  note b = calc_irc_policy [of "of_dec (- 5) 0" CONTAB_DEFAULTS, THEN conjunct1, THEN mp, OF neg]
  show ?thesis
    by (intro conjI pos a neg b)
qed

text \<open>
  The claim as the specification words it, in the decimal arithmetic of its example,
  fails for a net result of 1.00 under the default surtax of 1.5\%. The product is one
  cent and a half, which rounds to two cents; the double nearest to it lies below, and
  the source returns a surtax of 0.01 and a subtotal of 0.17.
\<close>

theorem calc_irc_half_cent_counterexample:
  "calc_irc (of_dec 1 0) CONTAB_DEFAULTS = (of_dec 16 2, of_dec 1 2, of_dec 17 2)
   \<and> half_even (1 * 15) 10 = 2
   \<and> of_dec 1 2 \<noteq> of_dec 2 2"
  by code_simp

section \<open>Where the monthly sums are rounded\<close>




section \<open>The months of the output\<close>




section \<open>Expense breakdown by category\<close>

lemma por_categoria_month:
  assumes "s \<in> set (build_contabilidade cf cs rows)"
  shows "por_categoria s = g_por_categoria (fold gast_add (month_rows (summary_key s) rows) gast0)"
  by (subst build_contabilidade_elem [OF assms]) (simp add: month_summary_fields gast_lookup)

lemma distinct_acc_step:
  "distinct (map fst al) \<Longrightarrow> distinct (map fst (acc_step key d f x al))"
  by (simp add: acc_step_def distinct_update split: option.splits)

lemma distinct_acc_fold:
  "distinct (map fst al) \<Longrightarrow> distinct (map fst (fold (acc_step key d f) xs al))"
  by (induction xs arbitrary: al) (simp_all add: distinct_acc_step)

lemma single_categoria:
  assumes "g_por_categoria (fold gast_add ys gast0) = [(cat, v)]"
  shows "v = fsum (map custo_irc ys)"
proof -
  have "despesa_cat ` set ys = {cat}"
    using por_categoria_keys [of ys] assms by simp
  then have all: "categoria_rows cat ys = ys" and ne: "ys \<noteq> []"
    by (auto simp: categoria_rows_def filter_id_conv)
  have "map_of (g_por_categoria (fold gast_add ys gast0)) cat = Some v"
    by (simp add: assms)
  then show ?thesis
    using ne by (simp add: por_categoria_lookup all)
qed

text \<open>
  Claim C5, as amended. For every month of the output, the per-category breakdown has
  one entry for each category among the expense rows of the month, which is the running
  sum in double precision, not rounded, of the costs of the rows of that category in
  input order; the emitted expense base is the running sum of the costs of all the rows
  of the month, rounded to two decimals; the mileage value is in neither. When the
  breakdown has a single category, the expense base is the value of that category
  rounded to two decimals. With more categories the two agree only up to the rounding
  and to the error of the additions in a different order.
\<close>

theorem categoria_breakdown_and_expense_base:
  assumes "s \<in> set (build_contabilidade cf cs rows)"
  shows "gastos_despesas s = py_round 2 (fsum (map custo_irc (month_rows (summary_key s) rows)))
    \<and> (\<forall>cat. map_of (por_categoria s) cat =
          (if categoria_rows cat (month_rows (summary_key s) rows) = [] then None
           else Some (fsum (map custo_irc (categoria_rows cat (month_rows (summary_key s) rows))))))
    \<and> distinct (map fst (por_categoria s))
    \<and> (\<forall>cat v. por_categoria s = [(cat, v)] \<longrightarrow> gastos_despesas s = py_round 2 v)"
proof -
  let ?ys = "month_rows (summary_key s) rows"
  note pc = por_categoria_month [OF assms]
  note base = gastos_despesas_sum [OF assms]
  have look: "map_of (por_categoria s) cat =
          (if categoria_rows cat ?ys = [] then None
           else Some (fsum (map custo_irc (categoria_rows cat ?ys))))" for cat
    unfolding pc by (rule por_categoria_lookup)
  have dist: "distinct (map fst (por_categoria s))"
    unfolding pc by (simp add: fold_gast_add_cat distinct_acc_fold gast0_fields)
  have one: "gastos_despesas s = py_round 2 v" if "por_categoria s = [(cat, v)]" for cat v
    using single_categoria [of ?ys cat v] that base unfolding pc by simp
  from base look dist one show ?thesis by blast
qed

text \<open>
  Two fuel rows and an insurance row of one month: the fuel entry of the breakdown is
  the running sum of the two fuel costs. A single insurance row of 1.004: the expense
  base is the one entry of the breakdown rounded to two decimals.
\<close>

theorem categoria_breakdown_and_expense_base_witness:
  "hd (build_contabilidade CONTAB_DEFAULTS []
         [ex_row ''2024-01-10'' cat_combustiveis 83590 4830,
          ex_row ''2024-01-11'' ''Seguros'' 162350 0,
          ex_row ''2024-01-12'' cat_combustiveis 249360 18420])
     \<in> set (build_contabilidade CONTAB_DEFAULTS []
         [ex_row ''2024-01-10'' cat_combustiveis 83590 4830,
          ex_row ''2024-01-11'' ''Seguros'' 162350 0,
          ex_row ''2024-01-12'' cat_combustiveis 249360 18420])
   \<and> distinct (map fst (por_categoria
       (hd (build_contabilidade CONTAB_DEFAULTS []
         [ex_row ''2024-01-10'' cat_combustiveis 83590 4830,
          ex_row ''2024-01-11'' ''Seguros'' 162350 0,
          ex_row ''2024-01-12'' cat_combustiveis 249360 18420]))))
   \<and> map por_categoria
       (build_contabilidade CONTAB_DEFAULTS []
         [ex_row ''2024-01-10'' cat_combustiveis 83590 4830,
          ex_row ''2024-01-11'' ''Seguros'' 162350 0,
          ex_row ''2024-01-12'' cat_combustiveis 249360 18420])
     = [ [(cat_combustiveis, of_dec 344575 3), (''Seguros'', of_dec 16235 2)] ]
   \<and> por_categoria
       (hd (build_contabilidade CONTAB_DEFAULTS [] [ex_row ''2024-01-10'' ''Seguros'' 1004 0]))
     = [(''Seguros'', of_dec 1004 3)]
   \<and> gastos_despesas
       (hd (build_contabilidade CONTAB_DEFAULTS [] [ex_row ''2024-01-10'' ''Seguros'' 1004 0]))
     = py_round 2 (of_dec 1004 3)"
proof -
  let ?out = "build_contabilidade CONTAB_DEFAULTS []
         [ex_row ''2024-01-10'' cat_combustiveis 83590 4830,
          ex_row ''2024-01-11'' ''Seguros'' 162350 0,
          ex_row ''2024-01-12'' cat_combustiveis 249360 18420]"
  have mem: "hd ?out \<in> set ?out" by code_simp
  have v: "map por_categoria ?out
     = [ [(cat_combustiveis, of_dec 344575 3), (''Seguros'', of_dec 16235 2)] ]"
    by code_simp
  let ?one = "build_contabilidade CONTAB_DEFAULTS [] [ex_row ''2024-01-10'' ''Seguros'' 1004 0]"
  have mem1: "hd ?one \<in> set ?one" by code_simp
  have pc: "por_categoria (hd ?one) = [(''Seguros'', of_dec 1004 3)]" by code_simp
  note single = categoria_breakdown_and_expense_base [OF mem1, THEN conjunct2, THEN conjunct2,
      THEN conjunct2, THEN spec, THEN spec, THEN mp, OF pc]
  show ?thesis
    by (intro conjI mem v pc single
        categoria_breakdown_and_expense_base [OF mem, THEN conjunct2, THEN conjunct2,
          THEN conjunct1])
qed

text \<open>
  The claim as the specification words it (the breakdown sums exactly to the emitted
  expense base) fails for a single row of 1.004 in the category \<open>Seguros\<close>: the
  breakdown holds 1.004 and the expense base is 1.00.
\<close>

theorem categoria_breakdown_counterexample:
  "map gastos_despesas
     (build_contabilidade CONTAB_DEFAULTS [] [ex_row ''2024-01-10'' ''Seguros'' 1004 0])
     = [of_dec 1 0]
   \<and> map categoria_total
     (build_contabilidade CONTAB_DEFAULTS [] [ex_row ''2024-01-10'' ''Seguros'' 1004 0])
     = [of_dec 1004 3]
   \<and> of_dec 1004 3 \<noteq> of_dec 1 0"
  by code_simp

text \<open>
  Rounding the sum of the breakdown does not give the expense base either. For the
  three rows of the example above the expense base is 506.93, and the breakdown sums
  to 506.92499999999995, which rounds to 506.92.
\<close>

lemma categoria_total_rounds_to_another_cent:
  "map gastos_despesas
     (build_contabilidade CONTAB_DEFAULTS []
        [ex_row ''2024-01-10'' cat_combustiveis 83590 4830,
         ex_row ''2024-01-11'' ''Seguros'' 162350 0,
         ex_row ''2024-01-12'' cat_combustiveis 249360 18420]) = [of_dec 50693 2]
   \<and> map (\<lambda>s. py_round 2 (categoria_total s))
     (build_contabilidade CONTAB_DEFAULTS []
        [ex_row ''2024-01-10'' cat_combustiveis 83590 4830,
         ex_row ''2024-01-11'' ''Seguros'' 162350 0,
         ex_row ''2024-01-12'' cat_combustiveis 249360 18420]) = [of_dec 50692 2]
   \<and> of_dec 50693 2 \<noteq> of_dec 50692 2"
  by code_simp

section \<open>The order of the records\<close>

lemma filter_Nil_set:
  "filter P xs = [] \<longleftrightarrow> (\<forall>x \<in> set xs. \<not> P x)"
  by (simp add: filter_empty_conv)

lemma build_contabilidade_map:
  "build_contabilidade cf cs rows =
     map (month_summary cf
            (fst (fold (concert_step (fdiv100 (taxa_iva_rendimentos cf))) cs ([], [])))
            (fold despesa_step rows [])
            (snd (fold (concert_step (fdiv100 (taxa_iva_rendimentos cf))) cs ([], []))))
       (map summary_key (build_contabilidade cf cs rows))"
  unfolding build_contabilidade_keys by (simp add: build_contabilidade_def Let_def)

lemma month_summary_cong:
  assumes "get_or (map_of R k) rend0 = get_or (map_of R' k) rend0"
    and "get_or (map_of K k) fzero = get_or (map_of K' k) fzero"
    and "get_or (map_of G k) gast0 = get_or (map_of G' k) gast0"
  shows "month_summary c R G K k = month_summary c R' G' K' k"
  unfolding month_summary_def Let_def case_prod_unfold
  by (simp add: assms)

lemma keys_of_permutation:
  assumes "set cs = set cs'" and "set rows = set rows'"
  shows "map summary_key (build_contabilidade cf cs rows)
       = map summary_key (build_contabilidade cf cs' rows')"
proof -
  have "set (map summary_key (build_contabilidade cf cs rows))
      = set (map summary_key (build_contabilidade cf cs' rows'))"
    unfolding build_contabilidade_key_set assms ..
  then show ?thesis
    using build_contabilidade_sorted [of cf cs rows] build_contabilidade_sorted [of cf cs' rows']
    by (blast intro: sorted_distinct_set_unique)
qed

lemma filter_key_swap:
  "f a \<noteq> f b \<Longrightarrow> filter (\<lambda>x. f x = Some k) [a, b] = filter (\<lambda>x. f x = Some k) [b, a]"
  by auto

text \<open>
  Claim C8, as amended. For two inputs that differ only in the order of their revenue
  records and expense rows, the aggregation emits the same months, one summary each,
  in ascending order of (year, month). When, in addition, the records of every month
  keep their relative order, the two outputs are the same. Otherwise the monetary
  fields, which are running sums in double precision in input order, can differ in
  their last bits.
\<close>

theorem aggregation_order:
  assumes "mset cs = mset cs'" and "mset rows = mset rows'"
  shows "map summary_key (build_contabilidade cf cs rows)
           = map summary_key (build_contabilidade cf cs' rows')
       \<and> sorted (map summary_key (build_contabilidade cf cs rows))
       \<and> distinct (map summary_key (build_contabilidade cf cs rows))
       \<and> ((\<forall>k. month_fees k cs = month_fees k cs' \<and> month_kms k cs = month_kms k cs'
                \<and> month_rows k rows = month_rows k rows')
            \<longrightarrow> build_contabilidade cf cs rows = build_contabilidade cf cs' rows')"
proof -
  let ?t = "fdiv100 (taxa_iva_rendimentos cf)"
  let ?R = "fst (fold (concert_step ?t) cs ([], []))"
  let ?K = "snd (fold (concert_step ?t) cs ([], []))"
  let ?G = "fold despesa_step rows []"
  let ?R' = "fst (fold (concert_step ?t) cs' ([], []))"
  let ?K' = "snd (fold (concert_step ?t) cs' ([], []))"
  let ?G' = "fold despesa_step rows' []"
  let ?ks = "map summary_key (build_contabilidade cf cs rows)"
  let ?ks' = "map summary_key (build_contabilidade cf cs' rows')"
  have sets: "set cs = set cs'" "set rows = set rows'"
    using assms by (auto dest: mset_eq_setD)
  have keys: "?ks = ?ks'"
    by (rule keys_of_permutation [OF sets])
  have same: "build_contabilidade cf cs rows = build_contabilidade cf cs' rows'"
    if stable: "\<forall>k. month_fees k cs = month_fees k cs' \<and> month_kms k cs = month_kms k cs'
                \<and> month_rows k rows = month_rows k rows'"
  proof -
    have eq: "month_summary cf ?R ?G ?K k = month_summary cf ?R' ?G' ?K' k" for k
    proof (rule month_summary_cong)
      have f: "month_fees k cs = month_fees k cs'"
        and m: "month_kms k cs = month_kms k cs'"
        and r: "month_rows k rows = month_rows k rows'"
        using stable by blast+
      show "get_or (map_of ?R k) rend0 = get_or (map_of ?R' k) rend0"
        unfolding rend_lookup f by (rule refl)
      show "get_or (map_of ?K k) fzero = get_or (map_of ?K' k) fzero"
        unfolding km_lookup m by (rule refl)
      show "get_or (map_of ?G k) gast0 = get_or (map_of ?G' k) gast0"
        unfolding gast_lookup r by (rule refl)
    qed
    have "build_contabilidade cf cs rows = map (month_summary cf ?R ?G ?K) ?ks"
      by (rule build_contabilidade_map)
    also have "\<dots> = map (month_summary cf ?R' ?G' ?K') ?ks'"
      unfolding keys using eq by simp
    also have "\<dots> = build_contabilidade cf cs' rows'"
      by (rule build_contabilidade_map [symmetric])
    finally show ?thesis .
  qed
  from keys same build_contabilidade_sorted [of cf cs rows] show ?thesis by blast
qed

text \<open>
  Two concerts and two expense rows, of February and of January, against the same
  records with January first: each month keeps its records in their order, and the two
  outputs are the same, January before February.
\<close>

theorem aggregation_order_witness:
  "mset [ex_concert ''e2'' 2 ''100'' [] (PNum 30 0), ex_concert ''e1'' 1 ''200'' [] (PNum 10 0)]
     = mset [ex_concert ''e1'' 1 ''200'' [] (PNum 10 0), ex_concert ''e2'' 2 ''100'' [] (PNum 30 0)]
   \<and> mset [ex_row ''2024-02-10'' ''Seguros'' 100 0, ex_row ''2024-01-11'' ''Seguros'' 200 0]
     = mset [ex_row ''2024-01-11'' ''Seguros'' 200 0, ex_row ''2024-02-10'' ''Seguros'' 100 0]
   \<and> map summary_key
       (build_contabilidade CONTAB_DEFAULTS
          [ex_concert ''e2'' 2 ''100'' [] (PNum 30 0), ex_concert ''e1'' 1 ''200'' [] (PNum 10 0)]
          [ex_row ''2024-02-10'' ''Seguros'' 100 0, ex_row ''2024-01-11'' ''Seguros'' 200 0])
     = [(2024, 1), (2024, 2)]
   \<and> build_contabilidade CONTAB_DEFAULTS
          [ex_concert ''e2'' 2 ''100'' [] (PNum 30 0), ex_concert ''e1'' 1 ''200'' [] (PNum 10 0)]
          [ex_row ''2024-02-10'' ''Seguros'' 100 0, ex_row ''2024-01-11'' ''Seguros'' 200 0]
     = build_contabilidade CONTAB_DEFAULTS
          [ex_concert ''e1'' 1 ''200'' [] (PNum 10 0), ex_concert ''e2'' 2 ''100'' [] (PNum 30 0)]
          [ex_row ''2024-01-11'' ''Seguros'' 200 0, ex_row ''2024-02-10'' ''Seguros'' 100 0]
   \<and> map gastos_km
       (build_contabilidade CONTAB_DEFAULTS
          [ex_concert ''e1'' 1 ''200'' [] (PNum 10 0), ex_concert ''e2'' 2 ''100'' [] (PNum 30 0)]
          [ex_row ''2024-01-11'' ''Seguros'' 200 0, ex_row ''2024-02-10'' ''Seguros'' 100 0])
     = [of_dec 4 0, of_dec 12 0]"
proof -
  let ?c1 = "ex_concert ''e1'' 1 ''200'' [] (PNum 10 0)"
  let ?c2 = "ex_concert ''e2'' 2 ''100'' [] (PNum 30 0)"
  let ?r1 = "ex_row ''2024-01-11'' ''Seguros'' 200 0"
  let ?r2 = "ex_row ''2024-02-10'' ''Seguros'' 100 0"
  have m1: "mset [?c2, ?c1] = mset [?c1, ?c2]" by (simp add: add_mset_commute)
  have m2: "mset [?r2, ?r1] = mset [?r1, ?r2]" by (simp add: add_mset_commute)
  have kr: "rend_key ?c2 \<noteq> rend_key ?c1" by code_simp
  have kk: "km_key ?c2 \<noteq> km_key ?c1" by code_simp
  have kd: "despesa_key ?r2 \<noteq> despesa_key ?r1" by code_simp
  have st: "\<forall>k. month_fees k [?c2, ?c1] = month_fees k [?c1, ?c2]
              \<and> month_kms k [?c2, ?c1] = month_kms k [?c1, ?c2]
              \<and> month_rows k [?r2, ?r1] = month_rows k [?r1, ?r2]"
    unfolding month_fees_def month_kms_def month_rows_def
    by (intro allI conjI filter_key_swap kr kk kd)
  have v: "map summary_key (build_contabilidade CONTAB_DEFAULTS [?c2, ?c1] [?r2, ?r1])
             = [(2024, 1), (2024, 2)]"
    by code_simp
  have g: "map gastos_km (build_contabilidade CONTAB_DEFAULTS [?c1, ?c2] [?r1, ?r2])
             = [of_dec 4 0, of_dec 12 0]"
    by code_simp
  note same = aggregation_order [OF m1 m2, THEN conjunct2, THEN conjunct2, THEN conjunct2,
      THEN mp, OF st]
  show ?thesis
    by (intro conjI m1 m2 v same g)
qed

text \<open>
  The claim as the specification words it (the same summaries in any order of the
  input) fails for three rows of 0.10, 0.20 and 0.30 of one category and one month: in
  that order the breakdown holds 0.6000000000000001, in the reverse order 0.6.
\<close>

theorem aggregation_order_counterexample:
  "mset [ex_row ''2024-01-10'' ''Seguros'' 100 0, ex_row ''2024-01-11'' ''Seguros'' 200 0,
         ex_row ''2024-01-12'' ''Seguros'' 300 0]
     = mset [ex_row ''2024-01-12'' ''Seguros'' 300 0, ex_row ''2024-01-11'' ''Seguros'' 200 0,
             ex_row ''2024-01-10'' ''Seguros'' 100 0]
   \<and> map por_categoria
       (build_contabilidade CONTAB_DEFAULTS []
          [ex_row ''2024-01-10'' ''Seguros'' 100 0, ex_row ''2024-01-11'' ''Seguros'' 200 0,
           ex_row ''2024-01-12'' ''Seguros'' 300 0])
     = [ [(''Seguros'', Fin 5404319552844596 (- 53))] ]
   \<and> map por_categoria
       (build_contabilidade CONTAB_DEFAULTS []
          [ex_row ''2024-01-12'' ''Seguros'' 300 0, ex_row ''2024-01-11'' ''Seguros'' 200 0,
           ex_row ''2024-01-10'' ''Seguros'' 100 0])
     = [ [(''Seguros'', Fin 5404319552844595 (- 53))] ]
   \<and> of_dec 6 1 = Fin 5404319552844595 (- 53)"
proof -
  have m: "mset [ex_row ''2024-01-10'' ''Seguros'' 100 0, ex_row ''2024-01-11'' ''Seguros'' 200 0,
         ex_row ''2024-01-12'' ''Seguros'' 300 0]
     = mset [ex_row ''2024-01-12'' ''Seguros'' 300 0, ex_row ''2024-01-11'' ''Seguros'' 200 0,
             ex_row ''2024-01-10'' ''Seguros'' 100 0]"
    by (simp add: add_mset_commute)
  have a: "map por_categoria
       (build_contabilidade CONTAB_DEFAULTS []
          [ex_row ''2024-01-10'' ''Seguros'' 100 0, ex_row ''2024-01-11'' ''Seguros'' 200 0,
           ex_row ''2024-01-12'' ''Seguros'' 300 0])
     = [ [(''Seguros'', Fin 5404319552844596 (- 53))] ]"
    by code_simp
  have b: "map por_categoria
       (build_contabilidade CONTAB_DEFAULTS []
          [ex_row ''2024-01-12'' ''Seguros'' 300 0, ex_row ''2024-01-11'' ''Seguros'' 200 0,
           ex_row ''2024-01-10'' ''Seguros'' 100 0])
     = [ [(''Seguros'', Fin 5404319552844595 (- 53))] ]"
    by code_simp
  have c: "of_dec 6 1 = Fin 5404319552844595 (- 53)" by code_simp
  show ?thesis by (intro conjI m a b c)
qed

end
